theory Spec2Isabelle
  imports Complex_Main "HOL-Library.AList"
begin

section \<open>Python values and exceptions\<close>

text \<open>
  The three source files are Python. A raised exception is a value of \<open>py_exn\<close>; a
  function that may raise returns \<open>py_exn + 'a\<close> with \<open>Inl\<close> for the exception. Only
  subclasses of \<^verbatim>\<open>Exception\<close> are modelled, which is what \<^verbatim>\<open>except Exception\<close>
  catches. \<open>OtherException\<close> stands for whatever an external collaborator raises and
  carries its \<^verbatim>\<open>str(e)\<close>.
\<close>

datatype py_exn =
    ZeroDivisionError
  | RuntimeError string
  | KeyError string
  | TypeError string
  | OtherException string

text \<open>\<^verbatim>\<open>str(e)\<close>. For a \<^verbatim>\<open>KeyError\<close> Python prints the repr of the key.\<close>

fun exn_str :: "py_exn \<Rightarrow> string" where
  "exn_str ZeroDivisionError = ''division by zero''"
| "exn_str (RuntimeError m) = m"
| "exn_str (KeyError k) = [CHR 0x27] @ k @ [CHR 0x27]"
| "exn_str (TypeError m) = m"
| "exn_str (OtherException m) = m"

text \<open>
  JSON-like data: the dictionaries the metric returns and the schema it declares. A
  dictionary is an association list in insertion order. A number is the rational it
  denotes: a Python int, or a \<^verbatim>\<open>float\<close>, which is a double and so a rational.
\<close>

datatype json =
    JNull
  | JBool bool
  | JNumber rat
  | JString string
  | JArray "json list"
  | JObject "(string \<times> json) list"

section \<open>The ExactStrMatch metric (exactstrmatch.py)\<close>

text \<open>The class variable \<^verbatim>\<open>ExactStrMatch.output_schema\<close>, key by key.\<close>

definition output_schema :: json where
  "output_schema = JObject
     [(''$schema'', JString ''http://json-schema.org/draft-07/schema#''),
      (''title'', JString ''ExactStrMatchOutput''),
      (''description'', JString ''Schema for the output of ExactStrMatch metric calculation.''),
      (''type'', JString ''object''),
      (''properties'', JObject
         [(''exact_str_match'', JObject
            [(''type'', JString ''number''),
             (''description'', JString ''The calculated exact string match accuracy as a float.'')])]),
      (''required'', JArray [JString ''exact_str_match''])]"

text \<open>
  The \<^verbatim>\<open>for\<close> loop of \<^verbatim>\<open>get_results\<close> over \<^verbatim>\<open>zip(predicted_results, targets)\<close>,
  with the counter \<^verbatim>\<open>correct\<close> as accumulator.
\<close>

fun count_correct :: "('a \<times> 'a) list \<Rightarrow> int \<Rightarrow> int" where
  "count_correct [] correct = correct"
| "count_correct ((result, target) # rest) correct =
     count_correct rest (if result = target then correct + 1 else correct)"

text \<open>
  \<^verbatim>\<open>ExactStrMatch.get_results\<close>.
  \<^item> \<^verbatim>\<open>correct / total\<close> divides two Python ints: the value is a \<^verbatim>\<open>float\<close>, the double
    nearest to the exact quotient, and \<^verbatim>\<open>float(...)\<close> of a float is that float. Every
    double is a rational number; \<open>to_float\<close> is the rounding from the exact quotient to
    the double, a parameter of the model. The division raises \<^verbatim>\<open>ZeroDivisionError\<close>
    when \<^verbatim>\<open>total\<close> is zero, before the dictionary is built.
  \<^item> \<^verbatim>\<open>validate_output\<close> is inherited from \<^verbatim>\<open>MetricInterface\<close>, which is not among the
    source files, so it is a parameter.
  \<^item> \<^verbatim>\<open>prompts\<close> is accepted and never read.
  \<^item> The decorator \<^verbatim>\<open>@timeit\<close> (\<^verbatim>\<open>moonshot.src.utils.timeit\<close>) is not among the source
    files either. It is taken to hand the arguments to the method and the method's
    result or exception back unchanged; the model is the method's body.
\<close>

definition get_results ::
  "(rat \<Rightarrow> rat) \<Rightarrow> (json \<Rightarrow> json \<Rightarrow> bool) \<Rightarrow> 'p \<Rightarrow> 'a list \<Rightarrow> 'a list \<Rightarrow> py_exn + json" where
  "get_results to_float validate_output prompts predicted_results targets =
     (let correct = count_correct (zip predicted_results targets) 0;
          total = int (length predicted_results)
      in if total = 0 then Inl ZeroDivisionError
         else
           let response_dict =
                 JObject [(''exact_str_match'',
                           JNumber (to_float (of_int correct / of_int total)))]
           in if validate_output response_dict output_schema then Inr response_dict
              else Inl (RuntimeError
                     ''[ExactStrMatch] Failed json schema validation for output response.''))"

text \<open>
  A rounding for evaluating \<open>get_results\<close>: to the nearest multiple of
  \<^verbatim>\<open>2**-53\<close>. The doubles between \<open>1/2\<close> and \<open>1\<close> are exactly the multiples of
  \<^verbatim>\<open>2**-53\<close> there, so on a
  quotient in that range this is the double Python returns (a quotient whose
  denominator is below \<^verbatim>\<open>2**54\<close> is never half-way between two of them).
\<close>

definition round53 :: "rat \<Rightarrow> rat" where
  "round53 q = of_int (round (q * 2 ^ 53)) / 2 ^ 53"

subsection \<open>The schema check\<close>

text \<open>
  Modelled from the spec: \<^verbatim>\<open>MetricInterface.validate_output\<close> is missing from the
  source files. The spec (4.6) calls the schema a small structural contract: named
  numeric/string fields and which are required. The check below reads exactly that
  from a schema: the declared \<^verbatim>\<open>type\<close> of the instance, the declared \<^verbatim>\<open>type\<close> of each
  named property that the instance has, and the presence of each \<^verbatim>\<open>required\<close> name.
\<close>

fun has_json_type :: "string \<Rightarrow> json \<Rightarrow> bool" where
  "has_json_type t (JNumber _) = (t = ''number'')"
| "has_json_type t (JString _) = (t = ''string'')"
| "has_json_type t (JObject _) = (t = ''object'')"
| "has_json_type t (JArray _) = (t = ''array'')"
| "has_json_type t (JBool _) = (t = ''boolean'')"
| "has_json_type t JNull = (t = ''null'')"

fun declared_type_ok :: "json \<Rightarrow> json \<Rightarrow> bool" where
  "declared_type_ok (JObject schema) v =
     (case map_of schema ''type'' of
        Some (JString t) \<Rightarrow> has_json_type t v
      | _ \<Rightarrow> True)"
| "declared_type_ok _ v = True"

fun required_names :: "json \<Rightarrow> string list" where
  "required_names (JObject schema) =
     (case map_of schema ''required'' of
        Some (JArray names) \<Rightarrow> concat (map (\<lambda>n. case n of JString s \<Rightarrow> [s] | _ \<Rightarrow> []) names)
      | _ \<Rightarrow> [])"
| "required_names _ = []"

fun declared_properties :: "json \<Rightarrow> (string \<times> json) list" where
  "declared_properties (JObject schema) =
     (case map_of schema ''properties'' of
        Some (JObject props) \<Rightarrow> props
      | _ \<Rightarrow> [])"
| "declared_properties _ = []"

fun spec_validate_output :: "json \<Rightarrow> json \<Rightarrow> bool" where
  "spec_validate_output (JObject fields) schema =
     (declared_type_ok schema (JObject fields)
      \<and> list_all (\<lambda>name. map_of fields name \<noteq> None) (required_names schema)
      \<and> list_all (\<lambda>(name, sub). case map_of fields name of
                                    None \<Rightarrow> True
                                  | Some v \<Rightarrow> declared_type_ok sub v)
          (declared_properties schema))"
| "spec_validate_output v schema = declared_type_ok schema v"

section \<open>The red-teaming runner module (redteaming.py)\<close>

subsection \<open>Inputs\<close>

text \<open>
  \<^verbatim>\<open>runner_args\<close> and each element of \<^verbatim>\<open>runner_args["attack_strategies"]\<close> are
  dictionaries. \<^verbatim>\<open>generate\<close> reads a fixed set of keys, each with \<^verbatim>\<open>in\<close> or
  \<^verbatim>\<open>.get(key, default)\<close>, so a dictionary is a record with one optional field per key
  read; \<open>None\<close> is an absent key. \<^verbatim>\<open>session_metadata\<close> is read for its \<^verbatim>\<open>endpoints\<close>
  only.
\<close>

record attack_strategy_args =
  arg_attack_module_id :: "string option"
  arg_metric_ids :: "string list option"
  arg_context_strategy_ids :: "string list option"
  arg_dataset_ids :: "string list option"
  arg_prompt_template_ids :: "string list option"
  arg_prompt :: "string option"

record runner_args =
  arg_num_of_prompts :: "int option"
  arg_system_prompt :: "string option"
  arg_attack_strategies :: "attack_strategy_args list option"

record session_metadata =
  endpoints :: "string list"

text \<open>
  The keyword arguments of the \<^verbatim>\<open>AttackModuleArguments(...)\<close> call. The connector,
  metric and context-strategy instances and the database handle belong to classes
  outside the source files; their types are parameters.
\<close>

record ('conn, 'met, 'cs, 'db) AttackModuleArguments =
  name :: string
  num_of_prompts :: int
  connector_instances :: "'conn list"
  datasets :: "string list"
  prompt_templates :: "string list"
  prompt :: string
  metric_instances :: "'met list"
  context_strategies :: "'cs list"
  db_instance :: 'db

subsection \<open>Collaborators, state and trace\<close>

text \<open>
  \<^verbatim>\<open>generate\<close> calls classes that are not in the source files. Each call is a
  function of an abstract world \<open>'w\<close> (database, network, clock, module registry)
  that returns a value or an exception together with the new world:
  \<^item> \<open>connector_create\<close> is \<^verbatim>\<open>Connector.create(ConnectorEndpoint.read(endpoint))\<close>;
  \<^item> \<open>metric_load\<close>, \<open>context_strategy_load\<close> and \<open>attack_module_load\<close> are
    \<^verbatim>\<open>Metric.load\<close>, \<^verbatim>\<open>ContextStrategy.load\<close> and \<^verbatim>\<open>AttackModule.load\<close>;
  \<^item> \<open>attack_module_name\<close> and \<open>attack_module_execute\<close> are \<^verbatim>\<open>attack_module.name\<close>
    and \<^verbatim>\<open>await attack_module.execute()\<close>. The coroutine \<^verbatim>\<open>generate\<close> is suspended
    at the \<^verbatim>\<open>await\<close> until \<^verbatim>\<open>execute()\<close> has returned or raised, so the call is
    one step from world to world;
  \<^item> \<open>perf_counter\<close> is \<^verbatim>\<open>time.perf_counter()\<close> and \<open>format_4f\<close> the \<^verbatim>\<open>:.4f\<close>
    format of a float.
\<close>

record ('conn, 'met, 'cs, 'db, 'am, 'resp, 'w) collaborators =
  connector_create :: "string \<Rightarrow> 'w \<Rightarrow> (py_exn + 'conn) \<times> 'w"
  metric_load :: "string \<Rightarrow> 'w \<Rightarrow> (py_exn + 'met) \<times> 'w"
  context_strategy_load :: "string \<Rightarrow> 'w \<Rightarrow> (py_exn + 'cs) \<times> 'w"
  attack_module_load ::
    "('conn, 'met, 'cs, 'db) AttackModuleArguments \<Rightarrow> 'w \<Rightarrow> (py_exn + 'am) \<times> 'w"
  attack_module_name :: "'am \<Rightarrow> string"
  attack_module_execute :: "'am \<Rightarrow> 'w \<Rightarrow> (py_exn + 'resp) \<times> 'w"
  perf_counter :: "'w \<Rightarrow> rat"
  format_4f :: "rat \<Rightarrow> string"

text \<open>
  What \<^verbatim>\<open>generate\<close> does that can be observed from outside, in order: each line it
  prints and each call it makes to a collaborator, with the argument of the call.
\<close>

datatype ('conn, 'met, 'cs, 'db, 'am) rt_event =
    Print string
  | Connector_create string
  | Metric_load string
  | ContextStrategy_load string
  | AttackModule_load "('conn, 'met, 'cs, 'db) AttackModuleArguments"
  | Execute 'am

text \<open>
  The state \<^verbatim>\<open>generate\<close> runs in: the world, the trace so far, and the attributes
  of \<^verbatim>\<open>self\<close> that \<^verbatim>\<open>generate\<close> computes (\<^verbatim>\<open>self.num_of_prompts\<close>,
  \<^verbatim>\<open>self.system_prompt\<close>, \<^verbatim>\<open>self.attack_strategies_args\<close>, \<^verbatim>\<open>self.llm_connectors\<close>).
  The attributes that only store an argument unchanged (\<^verbatim>\<open>self.event_loop\<close>,
  \<^verbatim>\<open>self.runner_args\<close>, \<^verbatim>\<open>self.database_instance\<close>, \<^verbatim>\<open>self.session_metadata\<close>) are
  the arguments themselves.
\<close>

record ('conn, 'met, 'cs, 'db, 'am, 'w) rt_state =
  world :: 'w
  trace :: "('conn, 'met, 'cs, 'db, 'am) rt_event list"
  self_num_of_prompts :: int
  self_system_prompt :: string
  self_attack_strategies_args :: "attack_strategy_args list option"
  self_llm_connectors :: "'conn list option"

definition print_line ::
  "string \<Rightarrow> ('conn, 'met, 'cs, 'db, 'am, 'w) rt_state
   \<Rightarrow> ('conn, 'met, 'cs, 'db, 'am, 'w) rt_state" where
  "print_line s st = st\<lparr>trace := trace st @ [Print s]\<rparr>"

definition call ::
  "('conn, 'met, 'cs, 'db, 'am) rt_event \<Rightarrow> ('w \<Rightarrow> (py_exn + 'a) \<times> 'w)
   \<Rightarrow> ('conn, 'met, 'cs, 'db, 'am, 'w) rt_state
   \<Rightarrow> (py_exn + 'a) \<times> ('conn, 'met, 'cs, 'db, 'am, 'w) rt_state" where
  "call ev f st =
     (case f (world st) of (r, w') \<Rightarrow> (r, st\<lparr>world := w', trace := trace st @ [ev]\<rparr>))"

text \<open>The lines printed by \<^verbatim>\<open>generate\<close>.\<close>

definition msg_part1 :: string where
  "msg_part1 = ''[Red teaming] Part 1: Loading all required modules...''"

definition msg_part2 :: string where
  "msg_part2 = ''[Red teaming] Part 2: Running Attack Module(s)...''"

definition msg_unable :: "py_exn \<Rightarrow> string" where
  "msg_unable e = ''Unable to load modules in attack strategy: '' @ exn_str e"

definition msg_starting :: "string \<Rightarrow> string" where
  "msg_starting n = ''[Red teaming] Starting to run attack module ['' @ n @ '']''"

definition msg_took :: "string \<Rightarrow> string \<Rightarrow> string" where
  "msg_took n d = ''[Red teaming] Running attack module ['' @ n @ ''] took '' @ d @ ''s''"

subsection \<open>Part 1: loading\<close>

text \<open>
  A list comprehension \<^verbatim>\<open>[load(i) for i in ids]\<close>: the calls are made in order and
  the first exception ends the comprehension.
\<close>

fun load_each ::
  "(string \<Rightarrow> ('conn, 'met, 'cs, 'db, 'am) rt_event) \<Rightarrow> (string \<Rightarrow> 'w \<Rightarrow> (py_exn + 'a) \<times> 'w)
   \<Rightarrow> string list \<Rightarrow> ('conn, 'met, 'cs, 'db, 'am, 'w) rt_state
   \<Rightarrow> (py_exn + 'a list) \<times> ('conn, 'met, 'cs, 'db, 'am, 'w) rt_state" where
  "load_each ev load [] st = (Inr [], st)"
| "load_each ev load (i # ids) st =
     (case call (ev i) (load i) st of
        (Inl e, st1) \<Rightarrow> (Inl e, st1)
      | (Inr x, st1) \<Rightarrow>
          (case load_each ev load ids st1 of
             (Inl e, st2) \<Rightarrow> (Inl e, st2)
           | (Inr xs, st2) \<Rightarrow> (Inr (x # xs), st2)))"

text \<open>
  The body of the \<^verbatim>\<open>for attack_strategy_args in ...\<close> loop up to the
  \<^verbatim>\<open>AttackModule.load\<close> call: metrics, then context strategies, then the attack
  module, whose arguments carry the literal \<^verbatim>\<open>num_of_prompts=0\<close>.
\<close>

definition load_attack_strategy ::
  "('conn, 'met, 'cs, 'db, 'am, 'resp, 'w) collaborators \<Rightarrow> 'conn list \<Rightarrow> 'db
   \<Rightarrow> attack_strategy_args \<Rightarrow> ('conn, 'met, 'cs, 'db, 'am, 'w) rt_state
   \<Rightarrow> (py_exn + 'am) \<times> ('conn, 'met, 'cs, 'db, 'am, 'w) rt_state" where
  "load_attack_strategy env llm_connectors database_instance a st =
     (case (case arg_metric_ids a of
              None \<Rightarrow> (Inr [], st)
            | Some ids \<Rightarrow> load_each Metric_load (metric_load env) ids st) of
        (Inl e, st1) \<Rightarrow> (Inl e, st1)
      | (Inr metric_instances', st1) \<Rightarrow>
          (case (case arg_context_strategy_ids a of
                   None \<Rightarrow> (Inr [], st1)
                 | Some ids \<Rightarrow> load_each ContextStrategy_load (context_strategy_load env) ids st1) of
             (Inl e, st2) \<Rightarrow> (Inl e, st2)
           | (Inr context_strategy_instances, st2) \<Rightarrow>
               (let arguments =
                      \<lparr>name = case_option '''' id (arg_attack_module_id a),
                       num_of_prompts = 0,
                       connector_instances = llm_connectors,
                       datasets = case_option [] id (arg_dataset_ids a),
                       prompt_templates = case_option [] id (arg_prompt_template_ids a),
                       prompt = case_option '''' id (arg_prompt a),
                       metric_instances = metric_instances',
                       context_strategies = context_strategy_instances,
                       db_instance = database_instance\<rparr>
                in call (AttackModule_load arguments) (attack_module_load env arguments) st2)))"

text \<open>
  The \<^verbatim>\<open>for\<close> loop itself, with \<^verbatim>\<open>loaded_attack_modules\<close> as accumulator. The loop
  sits inside the \<^verbatim>\<open>try\<close>, so an exception in one iteration leaves the loop: the
  result is the exception (for the \<^verbatim>\<open>except\<close> clause) and the modules appended so far.
\<close>

fun load_attack_strategies ::
  "('conn, 'met, 'cs, 'db, 'am, 'resp, 'w) collaborators \<Rightarrow> 'conn list \<Rightarrow> 'db
   \<Rightarrow> attack_strategy_args list \<Rightarrow> 'am list \<Rightarrow> ('conn, 'met, 'cs, 'db, 'am, 'w) rt_state
   \<Rightarrow> (py_exn option \<times> 'am list) \<times> ('conn, 'met, 'cs, 'db, 'am, 'w) rt_state" where
  "load_attack_strategies env llm_connectors database_instance [] loaded_attack_modules st =
     ((None, loaded_attack_modules), st)"
| "load_attack_strategies env llm_connectors database_instance (a # rest) loaded_attack_modules st =
     (case load_attack_strategy env llm_connectors database_instance a st of
        (Inl e, st1) \<Rightarrow> ((Some e, loaded_attack_modules), st1)
      | (Inr loaded_attack_module, st1) \<Rightarrow>
          load_attack_strategies env llm_connectors database_instance rest
            (loaded_attack_modules @ [loaded_attack_module]) st1)"

text \<open>
  Part 1 as a whole: the \<^verbatim>\<open>try\<close> block and its \<^verbatim>\<open>except Exception\<close> clause. Iterating
  over \<^verbatim>\<open>runner_args.get("attack_strategies", None)\<close> when the key is absent raises
  \<^verbatim>\<open>TypeError\<close>, which the clause catches like any other exception. The value is
  \<^verbatim>\<open>loaded_attack_modules\<close> as Part 2 finds it.
\<close>

definition load_modules ::
  "('conn, 'met, 'cs, 'db, 'am, 'resp, 'w) collaborators \<Rightarrow> runner_args \<Rightarrow> 'db \<Rightarrow> session_metadata
   \<Rightarrow> ('conn, 'met, 'cs, 'db, 'am, 'w) rt_state
   \<Rightarrow> 'am list \<times> ('conn, 'met, 'cs, 'db, 'am, 'w) rt_state" where
  "load_modules env runner_args' database_instance session_metadata' st0 =
     (let st = print_line msg_part1 st0 in
      case load_each Connector_create (connector_create env) (endpoints session_metadata') st of
        (Inl e, st1) \<Rightarrow> ([], print_line (msg_unable e) st1)
      | (Inr llm_connectors, st1) \<Rightarrow>
          (let st2 = st1\<lparr>self_llm_connectors := Some llm_connectors\<rparr> in
           case arg_attack_strategies runner_args' of
             None \<Rightarrow> ([], print_line (msg_unable (TypeError
                  (CHR 0x27 # ''NoneType'' @ CHR 0x27 # '' object is not iterable''))) st2)
           | Some strategies \<Rightarrow>
               (case load_attack_strategies env llm_connectors database_instance strategies [] st2 of
                  ((None, loaded_attack_modules), st3) \<Rightarrow> (loaded_attack_modules, st3)
                | ((Some e, loaded_attack_modules), st3) \<Rightarrow>
                    (loaded_attack_modules, print_line (msg_unable e) st3))))"

subsection \<open>Part 2: running\<close>

text \<open>
  The \<^verbatim>\<open>for attack_module in loaded_attack_modules\<close> loop, with
  \<^verbatim>\<open>responses_from_attack_module\<close> as accumulator. There is no \<^verbatim>\<open>try\<close> around
  \<^verbatim>\<open>await attack_module.execute()\<close>: an exception leaves the loop and \<^verbatim>\<open>generate\<close>.
\<close>

fun run_attack_modules ::
  "('conn, 'met, 'cs, 'db, 'am, 'resp, 'w) collaborators \<Rightarrow> 'am list \<Rightarrow> 'resp list
   \<Rightarrow> ('conn, 'met, 'cs, 'db, 'am, 'w) rt_state
   \<Rightarrow> (py_exn + 'resp list) \<times> ('conn, 'met, 'cs, 'db, 'am, 'w) rt_state" where
  "run_attack_modules env [] responses_from_attack_module st =
     (Inr responses_from_attack_module, st)"
| "run_attack_modules env (attack_module # rest) responses_from_attack_module st =
     (let st1 = print_line (msg_starting (attack_module_name env attack_module)) st;
          start_time = perf_counter env (world st1)
      in case call (Execute attack_module) (attack_module_execute env attack_module) st1 of
           (Inl e, st2) \<Rightarrow> (Inl e, st2)
         | (Inr attack_module_response, st2) \<Rightarrow>
             run_attack_modules env rest
               (responses_from_attack_module @ [attack_module_response])
               (print_line
                  (msg_took (attack_module_name env attack_module)
                     (format_4f env (perf_counter env (world st2) - start_time)))
                  st2))"

subsection \<open>generate\<close>

text \<open>
  \<^verbatim>\<open>RedTeaming.generate\<close>: the attribute assignments (\<open>assign_attributes\<close>, with
  the defaults of the \<^verbatim>\<open>.get\<close> calls), Part 1, Part 2, and
  \<^verbatim>\<open>return {}\<close>. The returned dictionary is an association list; \<^verbatim>\<open>{}\<close> is \<open>[]\<close>.
  The list \<^verbatim>\<open>responses_from_attack_module\<close> is built and not used again.
\<close>

definition assign_attributes ::
  "runner_args \<Rightarrow> ('conn, 'met, 'cs, 'db, 'am, 'w) rt_state
   \<Rightarrow> ('conn, 'met, 'cs, 'db, 'am, 'w) rt_state" where
  "assign_attributes runner_args' st =
     st\<lparr>self_num_of_prompts := case_option 0 id (arg_num_of_prompts runner_args'),
        self_system_prompt := case_option [] id (arg_system_prompt runner_args'),
        self_attack_strategies_args := arg_attack_strategies runner_args'\<rparr>"

definition generate ::
  "('conn, 'met, 'cs, 'db, 'am, 'resp, 'w) collaborators \<Rightarrow> runner_args \<Rightarrow> 'db
   \<Rightarrow> session_metadata \<Rightarrow> ('conn, 'met, 'cs, 'db, 'am, 'w) rt_state
   \<Rightarrow> (py_exn + (string \<times> json) list) \<times> ('conn, 'met, 'cs, 'db, 'am, 'w) rt_state" where
  "generate env runner_args' database_instance session_metadata' st0 =
     (case load_modules env runner_args' database_instance session_metadata'
             (assign_attributes runner_args' st0) of
        (loaded_attack_modules, st1) \<Rightarrow>
          (case run_attack_modules env loaded_attack_modules []
                  (print_line msg_part2 st1) of
             (Inl e, st2) \<Rightarrow> (Inl e, st2)
           | (Inr responses_from_attack_module, st2) \<Rightarrow> (Inr [], st2)))"

text \<open>Reading a trace: the modules executed and the arguments constructed, in order.\<close>

fun executed :: "('conn, 'met, 'cs, 'db, 'am) rt_event list \<Rightarrow> 'am list" where
  "executed [] = []"
| "executed (Execute m # evs) = m # executed evs"
| "executed (_ # evs) = executed evs"

fun constructed ::
  "('conn, 'met, 'cs, 'db, 'am) rt_event list
   \<Rightarrow> ('conn, 'met, 'cs, 'db) AttackModuleArguments list" where
  "constructed [] = []"
| "constructed (AttackModule_load a # evs) = a # constructed evs"
| "constructed (_ # evs) = constructed evs"

subsection \<open>A concrete registry\<close>

text \<open>
  One instance of the collaborators, for evaluating \<^verbatim>\<open>generate\<close> on concrete
  configurations. Instances are named by their identifiers and the world is a tick
  counter read by the clock. The registry knows the attack modules \<^verbatim>\<open>am1\<close>, \<^verbatim>\<open>am2\<close>,
  \<^verbatim>\<open>am3\<close> and \<^verbatim>\<open>faulty\<close>, the metric \<^verbatim>\<open>exactstrmatch\<close> and the context strategy
  \<^verbatim>\<open>add_previous_prompt\<close>; loading any other identifier raises. Executing \<^verbatim>\<open>faulty\<close>
  raises; executing another module returns one response and takes one tick.
\<close>

definition registry_load :: "string list \<Rightarrow> string \<Rightarrow> nat \<Rightarrow> (py_exn + string) \<times> nat" where
  "registry_load known i w =
     (if i \<in> set known then (Inr i, w)
      else (Inl (OtherException (''unknown id '' @ i)), w))"

definition sample_env ::
  "(string, string, string, unit, string, string list, nat) collaborators" where
  "sample_env =
     \<lparr>connector_create = (\<lambda>endpoint w. (Inr endpoint, w)),
      metric_load = registry_load [''exactstrmatch''],
      context_strategy_load = registry_load [''add_previous_prompt''],
      attack_module_load = (\<lambda>a. registry_load [''am1'', ''am2'', ''am3'', ''faulty''] (name a)),
      attack_module_name = (\<lambda>m. m),
      attack_module_execute =
        (\<lambda>m w. if m = ''faulty'' then (Inl (RuntimeError ''execute failed''), Suc w)
                else (Inr [''response of '' @ m], Suc w)),
      perf_counter = (\<lambda>w. of_nat w),
      format_4f = (\<lambda>d. ''1.0000'')\<rparr>"

definition entry :: "string \<Rightarrow> attack_strategy_args" where
  "entry module_id =
     \<lparr>arg_attack_module_id = Some module_id,
      arg_metric_ids = Some [''exactstrmatch''],
      arg_context_strategy_ids = None,
      arg_dataset_ids = None,
      arg_prompt_template_ids = None,
      arg_prompt = Some ''hello''\<rparr>"

definition config :: "string list \<Rightarrow> runner_args" where
  "config module_ids =
     \<lparr>arg_num_of_prompts = Some 5,
      arg_system_prompt = None,
      arg_attack_strategies = Some (map entry module_ids)\<rparr>"

definition sample_session :: session_metadata where
  "sample_session = \<lparr>endpoints = [''endpoint-a'']\<rparr>"

definition initial_state :: "(string, string, string, unit, string, nat) rt_state" where
  "initial_state =
     \<lparr>world = 0, trace = [], self_num_of_prompts = 0, self_system_prompt = [],
      self_attack_strategies_args = None, self_llm_connectors = None\<rparr>"


section \<open>The command-line session commands (session.py)\<close>

subsection \<open>Python dictionaries and truth values\<close>

text \<open>
  \<^verbatim>\<open>active_session\<close> is a module-level dictionary from strings to Python values;
  the values are of the type \<open>json\<close> above (\<open>JNull\<close> is \<^verbatim>\<open>None\<close>). \<^verbatim>\<open>d[k]\<close> raises
  \<^verbatim>\<open>KeyError\<close> on a missing key. \<open>truthy\<close> is the truth value Python gives a value
  in \<^verbatim>\<open>if v\<close> and \<^verbatim>\<open>v if v else w\<close>; for a dictionary, \<^verbatim>\<open>not d\<close> holds exactly when
  it is empty.
\<close>

definition subscript :: "(string \<times> json) list \<Rightarrow> string \<Rightarrow> py_exn + json" where
  "subscript d k = (case map_of d k of None \<Rightarrow> Inl (KeyError k) | Some v \<Rightarrow> Inr v)"

fun truthy :: "json \<Rightarrow> bool" where
  "truthy JNull = False"
| "truthy (JBool b) = b"
| "truthy (JNumber n) = (n \<noteq> 0)"
| "truthy (JString s) = (s \<noteq> [])"
| "truthy (JArray xs) = (xs \<noteq> [])"
| "truthy (JObject kvs) = (kvs \<noteq> [])"

text \<open>\<^verbatim>\<open>d.update(other)\<close>: each key of \<^verbatim>\<open>other\<close> is overwritten in place or appended.\<close>

definition dict_update :: "(string \<times> json) list \<Rightarrow> (string \<times> json) list \<Rightarrow> (string \<times> json) list" where
  "dict_update d other = fold (\<lambda>(k, v). AList.update k v) other d"

subsection \<open>Arguments, collaborators and state\<close>

text \<open>
  The namespace parsed by \<^verbatim>\<open>automated_rt_session_args\<close>: two positional strings and
  five optional ones (\<^verbatim>\<open>nargs="?"\<close>, so \<^verbatim>\<open>None\<close> when not given).
\<close>

record automated_rt_args =
  args_attack_module_id :: string
  args_prompt :: string
  args_system_prompt :: "string option"
  args_context_strategy :: "string option"
  args_num_of_prev_prompts :: "string option"
  args_prompt_template :: "string option"
  args_metric :: "string option"

text \<open>
  What the commands call outside the source files, as functions of an abstract world:
  \<^item> \<open>api_load_runner\<close>, \<open>api_load_session\<close>, \<open>api_get_all_chats_from_session\<close> from
    \<^verbatim>\<open>moonshot.api\<close>;
  \<^item> \<open>run_red_teaming\<close> is
    \<^verbatim>\<open>asyncio.get_event_loop().run_until_complete(runner.run_red_teaming(arguments))\<close>
    and \<open>runner_close\<close> is \<^verbatim>\<open>runner.close()\<close>;
  \<^item> \<open>console_print_panel\<close> is the construction of the chat tables from
    \<^verbatim>\<open>list_of_endpoint_chats\<close> and the call \<^verbatim>\<open>console.print(panel)\<close> in
    \<^verbatim>\<open>update_chat_display\<close>, given the panel title and the chats;
  \<^item> \<open>DEFAULT_CONTEXT_STRATEGY_PROMPT\<close> is the constant of the class \<^verbatim>\<open>Session\<close>.
\<close>

record ('r, 'w) cli_collaborators =
  api_load_runner :: "json \<Rightarrow> 'w \<Rightarrow> (py_exn + 'r) \<times> 'w"
  run_red_teaming :: "'r \<Rightarrow> json \<Rightarrow> 'w \<Rightarrow> (py_exn + unit) \<times> 'w"
  runner_close :: "'r \<Rightarrow> 'w \<Rightarrow> (py_exn + unit) \<times> 'w"
  api_load_session :: "json \<Rightarrow> 'w \<Rightarrow> (py_exn + (string \<times> json) list option) \<times> 'w"
  api_get_all_chats_from_session :: "json \<Rightarrow> 'w \<Rightarrow> (py_exn + json) \<times> 'w"
  console_print_panel :: "json \<Rightarrow> json \<Rightarrow> 'w \<Rightarrow> (py_exn + unit) \<times> 'w"
  DEFAULT_CONTEXT_STRATEGY_PROMPT :: json

datatype cli_event =
    Stdout string
  | Console_print string
  | Console_print_panel json json
  | Api_load_runner json
  | Run_red_teaming json
  | Runner_close
  | Api_load_session json
  | Api_get_all_chats_from_session json

record 'w cli_state =
  cli_world :: 'w
  active_session :: "(string \<times> json) list"
  cli_trace :: "cli_event list"

definition cli_print :: "string \<Rightarrow> 'w cli_state \<Rightarrow> 'w cli_state" where
  "cli_print s st = st\<lparr>cli_trace := cli_trace st @ [Stdout s]\<rparr>"

definition cli_call ::
  "cli_event \<Rightarrow> ('w \<Rightarrow> (py_exn + 'a) \<times> 'w) \<Rightarrow> 'w cli_state \<Rightarrow> (py_exn + 'a) \<times> 'w cli_state" where
  "cli_call ev f st =
     (case f (cli_world st) of
        (r, w') \<Rightarrow> (r, st\<lparr>cli_world := w', cli_trace := cli_trace st @ [ev]\<rparr>))"

text \<open>Reading a trace: the arguments of the \<^verbatim>\<open>run_red_teaming\<close> calls, in order.\<close>

fun red_teaming_runs :: "cli_event list \<Rightarrow> json list" where
  "red_teaming_runs [] = []"
| "red_teaming_runs (Run_red_teaming arguments # evs) = arguments # red_teaming_runs evs"
| "red_teaming_runs (_ # evs) = red_teaming_runs evs"

definition msg_no_active_session :: string where
  "msg_no_active_session =
     ''There is no active session. Activate a session to start red teaming.''"

definition msg_cannot_find_session :: string where
  "msg_cannot_find_session =
     ''[Session] Cannot find a session with the existing Runner ID. Please try again.''"

subsection \<open>_reload_session and update_chat_display\<close>

text \<open>
  \<^verbatim>\<open>_reload_session\<close>: the whole body is inside \<^verbatim>\<open>try\<close>, so it never raises.
  \<^verbatim>\<open>api_load_session\<close> returns the session metadata as a dictionary, or \<^verbatim>\<open>None\<close>;
  \<^verbatim>\<open>not session_metadata\<close> holds for \<^verbatim>\<open>None\<close> and for the empty dictionary.
\<close>

definition reload_session :: "('r, 'w) cli_collaborators \<Rightarrow> json \<Rightarrow> 'w cli_state \<Rightarrow> 'w cli_state" where
  "reload_session env runner_id st =
     (case cli_call (Api_load_session runner_id) (api_load_session env runner_id) st of
        (Inl e, st1) \<Rightarrow> cli_print (''[reload_session]: str('' @ exn_str e @ '')'') st1
      | (Inr session_metadata', st1) \<Rightarrow>
          (case session_metadata' of
             None \<Rightarrow> cli_print msg_cannot_find_session st1
           | Some [] \<Rightarrow> cli_print msg_cannot_find_session st1
           | Some kvs \<Rightarrow> st1\<lparr>active_session := dict_update (active_session st1) kvs\<rparr>))"

text \<open>
  \<^verbatim>\<open>update_chat_display\<close>: with an active session it fetches the chats, stores them
  under \<^verbatim>\<open>list_of_endpoint_chats\<close> and prints the panel; otherwise it prints a
  notice on the console. Nothing is caught here.
\<close>

definition update_chat_display ::
  "('r, 'w) cli_collaborators \<Rightarrow> 'w cli_state \<Rightarrow> (py_exn + unit) \<times> 'w cli_state" where
  "update_chat_display env st =
     (if active_session st \<noteq> [] then
        (case subscript (active_session st) ''session_id'' of
           Inl e \<Rightarrow> (Inl e, st)
         | Inr session_id \<Rightarrow>
             (case cli_call (Api_get_all_chats_from_session session_id)
                     (api_get_all_chats_from_session env session_id) st of
                (Inl e, st1) \<Rightarrow> (Inl e, st1)
              | (Inr list_of_endpoint_chats, st1) \<Rightarrow>
                  (let st2 = st1\<lparr>active_session :=
                                   AList.update ''list_of_endpoint_chats'' list_of_endpoint_chats
                                     (active_session st1)\<rparr>
                   in cli_call (Console_print_panel session_id list_of_endpoint_chats)
                        (console_print_panel env session_id list_of_endpoint_chats) st2)))
      else (Inr (), st\<lparr>cli_trace := cli_trace st
                          @ [Console_print ''[red]There are no active session.[/red]'']\<rparr>))"

subsection \<open>The context taken from the session\<close>

text \<open>
  The lines that \<^verbatim>\<open>manual_red_teaming\<close> (478 to 498) and \<^verbatim>\<open>run_attack_module\<close> (540
  to 566) have in common, word for word: \<^verbatim>\<open>prompt_template\<close>,
  \<^verbatim>\<open>context_strategy\<close>, \<^verbatim>\<open>num_of_prev_prompts\<close> and \<^verbatim>\<open>context_strategy_info\<close>, all
  read from \<^verbatim>\<open>active_session\<close>. The value is the pair of \<^verbatim>\<open>prompt_template\<close> and
  \<^verbatim>\<open>context_strategy_info\<close>, the two that are used afterwards.
\<close>

definition session_context :: "(string \<times> json) list \<Rightarrow> json \<Rightarrow> py_exn + json \<times> json" where
  "session_context session default_num =
     (case subscript session ''prompt_template'' of
        Inl e \<Rightarrow> Inl e
      | Inr pt \<Rightarrow>
          (let prompt_template = (if truthy pt then JArray [pt] else JArray []) in
           case subscript session ''context_strategy'' of
             Inl e \<Rightarrow> Inl e
           | Inr cs \<Rightarrow>
               (let context_strategy = (if truthy cs then cs else JArray []) in
                case (if truthy cs then subscript session ''cs_num_of_prev_prompts''
                      else Inr default_num) of
                  Inl e \<Rightarrow> Inl e
                | Inr num_of_prev_prompts \<Rightarrow>
                    (let context_strategy_info =
                           (if truthy context_strategy
                            then JArray [JObject
                                   [(''context_strategy_id'', context_strategy),
                                    (''num_of_prev_prompts'', num_of_prev_prompts)]]
                            else JArray [])
                     in Inr (prompt_template, context_strategy_info)))))"

subsection \<open>manual_red_teaming\<close>

text \<open>
  \<^verbatim>\<open>manual_red_teaming\<close>. The session is read before the \<^verbatim>\<open>try\<close>, so a missing key
  there raises out of the function; \<open>attempt\<close> is the \<^verbatim>\<open>try\<close> block and the final
  \<^verbatim>\<open>case\<close> its \<^verbatim>\<open>except Exception\<close> clause, which prints the literal text
  \<^verbatim>\<open>str(\<close>, the exception and \<^verbatim>\<open>)\<close>.
\<close>

definition manual_red_teaming ::
  "('r, 'w) cli_collaborators \<Rightarrow> string \<Rightarrow> 'w cli_state \<Rightarrow> (py_exn + unit) \<times> 'w cli_state" where
  "manual_red_teaming env user_prompt st =
     (if active_session st = [] then (Inr (), cli_print msg_no_active_session st)
      else
        case session_context (active_session st) (DEFAULT_CONTEXT_STRATEGY_PROMPT env) of
          Inl e \<Rightarrow> (Inl e, st)
        | Inr (prompt_template, context_strategy_info) \<Rightarrow>
            (let mrt_arguments =
                   JObject [(''manual_rt_args'', JObject
                      [(''prompt'', JString user_prompt),
                       (''context_strategy_info'', context_strategy_info),
                       (''prompt_template_ids'', prompt_template)])];
                 attempt =
                   (case subscript (active_session st) ''session_id'' of
                      Inl e \<Rightarrow> (Inl e, st)
                    | Inr session_id \<Rightarrow>
                   (case cli_call (Api_load_runner session_id)
                           (api_load_runner env session_id) st of
                      (Inl e, st1) \<Rightarrow> (Inl e, st1)
                    | (Inr runner, st1) \<Rightarrow>
                   (case cli_call (Run_red_teaming mrt_arguments)
                           (run_red_teaming env runner mrt_arguments) st1 of
                      (Inl e, st2) \<Rightarrow> (Inl e, st2)
                    | (Inr _, st2) \<Rightarrow>
                   (case cli_call Runner_close (runner_close env runner) st2 of
                      (Inl e, st3) \<Rightarrow> (Inl e, st3)
                    | (Inr _, st3) \<Rightarrow>
                   (case subscript (active_session st3) ''session_id'' of
                      Inl e \<Rightarrow> (Inl e, st3)
                    | Inr session_id' \<Rightarrow> (Inr (), reload_session env session_id' st3))))))
             in case attempt of
                  (Inl e, st') \<Rightarrow>
                    (Inr (), cli_print (''[manual_red_teaming]: str('' @ exn_str e @ '')'') st')
                | (Inr _, st') \<Rightarrow> (Inr (), st')))"

subsection \<open>run_attack_module\<close>

text \<open>
  Lines 536 to 580: the runner arguments. \<^verbatim>\<open>args.context_strategy\<close>,
  \<^verbatim>\<open>args.num_of_prev_prompts\<close> and \<^verbatim>\<open>args.prompt_template\<close> are not read.
\<close>

definition run_attack_module_runner_args ::
  "(string \<times> json) list \<Rightarrow> json \<Rightarrow> automated_rt_args \<Rightarrow> py_exn + json" where
  "run_attack_module_runner_args session default_num args =
     (let attack_module_id = args_attack_module_id args;
          prompt' = args_prompt args;
          system_prompt =
            (case args_system_prompt args of
               Some s \<Rightarrow> if s \<noteq> [] then s else []
             | None \<Rightarrow> [])
      in case session_context session default_num of
           Inl e \<Rightarrow> Inl e
         | Inr (prompt_template, context_strategy_info) \<Rightarrow>
             (let metric =
                    (case args_metric args of
                       Some m \<Rightarrow> if m \<noteq> [] then JArray [JString m] else JArray []
                     | None \<Rightarrow> JArray []);
                  attack_strategy =
                    JArray [JObject
                      [(''attack_module_id'', JString attack_module_id),
                       (''prompt'', JString prompt'),
                       (''system_prompt'', JString system_prompt),
                       (''context_strategy_info'', context_strategy_info),
                       (''prompt_template_ids'', prompt_template),
                       (''metric_ids'', metric)]]
              in Inr (JObject [(''attack_strategies'', attack_strategy)])))"

text \<open>
  \<^verbatim>\<open>run_attack_module\<close>. Everything after the check for an active session is inside
  the \<^verbatim>\<open>try\<close> (\<open>attempt\<close>), so the function always returns \<^verbatim>\<open>None\<close>; the value
  of the model is the state afterwards.
\<close>

definition run_attack_module ::
  "('r, 'w) cli_collaborators \<Rightarrow> automated_rt_args \<Rightarrow> 'w cli_state \<Rightarrow> 'w cli_state" where
  "run_attack_module env args st =
     (if active_session st = [] then cli_print msg_no_active_session st
      else
        let attempt =
              (case run_attack_module_runner_args (active_session st)
                      (DEFAULT_CONTEXT_STRATEGY_PROMPT env) args of
                 Inl e \<Rightarrow> (Inl e, st)
               | Inr runner_args' \<Rightarrow>
              (case subscript (active_session st) ''session_id'' of
                 Inl e \<Rightarrow> (Inl e, st)
               | Inr session_id \<Rightarrow>
              (case cli_call (Api_load_runner session_id)
                      (api_load_runner env session_id) st of
                 (Inl e, st1) \<Rightarrow> (Inl e, st1)
               | (Inr runner, st1) \<Rightarrow>
              (case cli_call (Run_red_teaming runner_args')
                      (run_red_teaming env runner runner_args') st1 of
                 (Inl e, st2) \<Rightarrow> (Inl e, st2)
               | (Inr _, st2) \<Rightarrow>
              (case cli_call Runner_close (runner_close env runner) st2 of
                 (Inl e, st3) \<Rightarrow> (Inl e, st3)
               | (Inr _, st3) \<Rightarrow>
              (case subscript (active_session st3) ''session_id'' of
                 Inl e \<Rightarrow> (Inl e, st3)
               | Inr session_id' \<Rightarrow>
                   update_chat_display env (reload_session env session_id' st3)))))))
        in case attempt of
             (Inl e, st') \<Rightarrow> cli_print (''[run_attack_module]: str('' @ exn_str e @ '')'') st'
           | (Inr _, st') \<Rightarrow> st')"

subsection \<open>A concrete session\<close>

text \<open>
  One instance of the collaborators and one active session, for evaluating the
  commands. Loading a runner, running the red teaming and closing the runner each
  advance the world by one tick.
\<close>

definition sample_cli :: "(string, nat) cli_collaborators" where
  "sample_cli =
     \<lparr>api_load_runner = (\<lambda>runner_id w. (Inr ''runner'', Suc w)),
      run_red_teaming = (\<lambda>runner arguments w. (Inr (), Suc w)),
      runner_close = (\<lambda>runner w. (Inr (), Suc w)),
      api_load_session = (\<lambda>runner_id w. (Inr (Some [(''session_id'', runner_id)]), w)),
      api_get_all_chats_from_session = (\<lambda>session_id w. (Inr (JObject []), w)),
      console_print_panel = (\<lambda>title chats w. (Inr (), w)),
      DEFAULT_CONTEXT_STRATEGY_PROMPT = JNumber 5\<rparr>"

definition sample_active_session :: "(string \<times> json) list" where
  "sample_active_session =
     [(''session_id'', JString ''my-runner''),
      (''context_strategy'', JString ''add_previous_prompt''),
      (''prompt_template'', JString ''mmlu''),
      (''cs_num_of_prev_prompts'', JNumber 3)]"

definition sample_args :: automated_rt_args where
  "sample_args =
     \<lparr>args_attack_module_id = ''sample_attack_module'',
      args_prompt = ''this is my prompt'',
      args_system_prompt = Some ''test system prompt'',
      args_context_strategy = None,
      args_num_of_prev_prompts = None,
      args_prompt_template = None,
      args_metric = Some ''exactstrmatch''\<rparr>"

definition cli_state0 :: "(string \<times> json) list \<Rightarrow> nat cli_state" where
  "cli_state0 session = \<lparr>cli_world = 0, active_session = session, cli_trace = []\<rparr>"

section \<open>Properties of ExactStrMatch\<close>

lemma count_correct_acc:
  "count_correct ps c = c + int (length (filter (\<lambda>(r, t). r = t) ps))"
  by (induction ps arbitrary: c) auto

lemma count_correct_card:
  assumes "length ps = length ts"
  shows "count_correct (zip ps ts) 0 = int (card {i. i < length ps \<and> ps ! i = ts ! i})"
proof -
  have "{i. i < length (zip ps ts) \<and> (case zip ps ts ! i of (r, t) \<Rightarrow> r = t)}
        = {i. i < length ps \<and> ps ! i = ts ! i}"
    using assms by auto
  then show ?thesis
    by (simp add: count_correct_acc length_filter_conv_card)
qed

lemma count_correct_bounds:
  "0 \<le> count_correct (zip ps ts) 0 \<and> count_correct (zip ps ts) 0 \<le> int (length ps)"
proof -
  have "length (filter (\<lambda>(r, t). r = t) (zip ps ts)) \<le> length (zip ps ts)"
    by (rule length_filter_le)
  then show ?thesis by (simp add: count_correct_acc)
qed

lemma response_validates:
  "spec_validate_output (JObject [(''exact_str_match'', JNumber s)]) output_schema"
  by (simp add: output_schema_def)

lemma round53_mono: "x \<le> y \<Longrightarrow> round53 x \<le> round53 y"
proof -
  assume "x \<le> y"
  then have "x * 2 ^ 53 \<le> y * 2 ^ 53" by simp
  then have "round (x * 2 ^ 53) \<le> round (y * 2 ^ 53)" by (rule round_mono)
  then show ?thesis by (simp add: round53_def divide_right_mono)
qed

lemma round53_0_1: "round53 0 = 0" "round53 1 = 1"
  by (simp_all add: round53_def)

text \<open>
  C3, as the code has it. With an empty \<^verbatim>\<open>predicted_results\<close> the loop body never
  runs, \<^verbatim>\<open>total\<close> is 0 and \<^verbatim>\<open>correct / total\<close> raises Python's
  \<^verbatim>\<open>ZeroDivisionError\<close>, whatever the targets and whatever the schema check would
  say. There is no guard on the length and no InvalidInput condition in the file.
\<close>

theorem get_results_empty_raises_zero_division:
  "get_results to_float validate_output prompts [] targets = Inl ZeroDivisionError"
  by (simp add: get_results_def)

text \<open>
  C3 as the spec words it (an InvalidInput failure, never an arithmetic fault) fails on
  the empty input: the call raises the division-by-zero error.
\<close>

theorem get_results_empty_counterexample:
  "get_results round53 spec_validate_output ''prompts'' ([] :: string list) []
     = Inl ZeroDivisionError"
  by (simp add: get_results_def)

text \<open>
  C6. For predicted results and targets of equal nonzero length, \<^verbatim>\<open>get_results\<close>
  returns the dictionary with the single key \<^verbatim>\<open>exact_str_match\<close>. Its value is the
  number of positions where prediction and target agree divided by the length, as
  Python divides: the float \<open>to_float\<close> gives for the exact quotient. That value lies
  between 0 and 1. What is asked of the rounding holds of rounding to the nearest
  double: it is monotone and leaves 0 and 1, which are doubles, as they are.
  \<^verbatim>\<open>validate_output\<close> is any check that accepts an object whose \<^verbatim>\<open>exact_str_match\<close>
  is a number, as the declared schema asks; the check modelled from the spec is one.
\<close>

theorem get_results_score:
  assumes "length predicted_results = length targets" and "predicted_results \<noteq> []"
    and "\<And>x. validate_output (JObject [(''exact_str_match'', JNumber x)]) output_schema"
    and "\<And>x y. x \<le> y \<Longrightarrow> to_float x \<le> to_float y"
    and "to_float 0 = 0" and "to_float 1 = 1"
  shows "\<exists>s. get_results to_float validate_output prompts predicted_results targets
               = Inr (JObject [(''exact_str_match'', JNumber s)])
           \<and> s = to_float
                   (of_nat (card {i. i < length predicted_results
                                     \<and> predicted_results ! i = targets ! i})
                    / of_nat (length predicted_results))
           \<and> 0 \<le> s \<and> s \<le> 1"
proof -
  let ?c = "count_correct (zip predicted_results targets) 0"
  let ?n = "int (length predicted_results)"
  let ?m = "card {i. i < length predicted_results \<and> predicted_results ! i = targets ! i}"
  have n: "0 < ?n" using assms(2) by simp
  have c: "?c = int ?m"
    using assms(1) by (rule count_correct_card)
  have b: "0 \<le> ?c" "?c \<le> ?n"
    using count_correct_bounds [of predicted_results targets] by simp_all
  have r: "get_results to_float validate_output prompts predicted_results targets
        = Inr (JObject [(''exact_str_match'', JNumber (to_float (of_int ?c / of_int ?n)))])"
    using n assms(3) by (simp add: get_results_def Let_def)
  have q: "(of_int ?c / of_int ?n :: rat) = of_nat ?m / of_nat (length predicted_results)"
    by (simp add: c)
  have lo: "(0::rat) \<le> of_int ?c / of_int ?n" using b n by simp
  have hi: "(of_int ?c / of_int ?n :: rat) \<le> 1" using b n by (simp add: divide_le_eq_1)
  have flo: "0 \<le> to_float (of_int ?c / of_int ?n)"
    using assms(4) [OF lo] assms(5) by simp
  have fhi: "to_float (of_int ?c / of_int ?n) \<le> 1"
    using assms(4) [OF hi] assms(6) by simp
  show ?thesis using r q flo fhi by metis
qed

theorem get_results_score_witness:
  "get_results round53 spec_validate_output ''prompts''
     [''a'', ''b'', ''c''] [''a'', ''x'', ''c'']
   = Inr (JObject [(''exact_str_match'', JNumber (6004799503160661 / 9007199254740992))])
   \<and> (6004799503160661 / 9007199254740992 :: rat) \<noteq> 2 / 3"
proof -
  have h1: "length [''a'', ''b'', ''c''] = length [''a'', ''x'', ''c'']" by simp
  have h2: "[''a'', ''b'', ''c''] \<noteq> []" by simp
  have h3: "\<And>x. spec_validate_output (JObject [(''exact_str_match'', JNumber x)]) output_schema"
    by (rule response_validates)
  have "card {i. i < length [''a'', ''b'', ''c'']
                 \<and> [''a'', ''b'', ''c''] ! i = [''a'', ''x'', ''c''] ! i} = card {0::nat, 2}"
    by (rule arg_cong [where f = card]) (auto simp: less_Suc_eq nth_Cons')
  then have m: "rat_of_nat (card {i. i < length [''a'', ''b'', ''c'']
                 \<and> [''a'', ''b'', ''c''] ! i = [''a'', ''x'', ''c''] ! i}) / 3 = 2 / 3"
    by simp
  have v: "round53 (2 / 3) = 6004799503160661 / 9007199254740992"
    by (simp add: round53_def round_def floor_eq_iff)
  from get_results_score [where validate_output = spec_validate_output
         and to_float = round53 and prompts = "''prompts''",
         OF h1 h2 h3 round53_mono round53_0_1]
  show ?thesis using m v by auto
qed



section \<open>Properties of RedTeaming.generate\<close>

subsection \<open>What each part adds to the trace\<close>

lemma executed_append: "executed (xs @ ys) = executed xs @ executed ys"
  by (induction xs rule: executed.induct) simp_all

lemma constructed_append: "constructed (xs @ ys) = constructed xs @ constructed ys"
  by (induction xs rule: constructed.induct) simp_all

lemma call_result:
  "call ev f st = (r, st') \<Longrightarrow>
     r = fst (f (world st)) \<and> world st' = snd (f (world st)) \<and> trace st' = trace st @ [ev]"
  by (auto simp: call_def split: prod.splits)

lemma print_line_fields:
  "trace (print_line s st) = trace st @ [Print s]" "world (print_line s st) = world st"
  by (simp_all add: print_line_def)

lemma load_each_trace:
  assumes "\<And>i. executed [ev i] = []" and "\<And>i. constructed [ev i] = []"
    and "load_each ev load ids st = (r, st')"
  shows "executed (trace st') = executed (trace st)
         \<and> constructed (trace st') = constructed (trace st)"
  using assms(3)
proof (induction ids arbitrary: st r st')
  case Nil
  then show ?case by simp
next
  case (Cons i ids)
  obtain r1 st1 where c: "call (ev i) (load i) st = (r1, st1)"
    by (cases "call (ev i) (load i) st")
  then have t: "trace st1 = trace st @ [ev i]"
    by (simp add: call_result)
  have e1: "executed (trace st1) = executed (trace st)"
       "constructed (trace st1) = constructed (trace st)"
    using assms(1,2) by (simp_all add: t executed_append constructed_append)
  show ?case
  proof (cases r1)
    case (Inl e)
    with Cons.prems c e1 show ?thesis by auto
  next
    case (Inr x)
    obtain r2 st2 where l: "load_each ev load ids st1 = (r2, st2)"
      by (cases "load_each ev load ids st1")
    from Cons.IH [OF l] e1
    have "executed (trace st2) = executed (trace st)
          \<and> constructed (trace st2) = constructed (trace st)" by simp
    moreover have "st' = st2"
      using Cons.prems c Inr l by (auto split: sum.splits)
    ultimately show ?thesis by simp
  qed
qed

lemma load_attack_strategy_trace:
  assumes "load_attack_strategy env conns db a st = (r, st')"
  shows "executed (trace st') = executed (trace st)
         \<and> (\<exists>as. constructed (trace st') = constructed (trace st) @ as
                 \<and> (\<forall>x \<in> set as. num_of_prompts x = 0))"
proof -
  let ?m = "case arg_metric_ids a of
              None \<Rightarrow> (Inr [], st)
            | Some ids \<Rightarrow> load_each Metric_load (metric_load env) ids st"
  obtain r1 st1 where m: "?m = (r1, st1)" by (cases ?m)
  have t1: "executed (trace st1) = executed (trace st)
            \<and> constructed (trace st1) = constructed (trace st)"
  proof (cases "arg_metric_ids a")
    case None
    with m show ?thesis by simp
  next
    case (Some ids)
    with m have "load_each Metric_load (metric_load env) ids st = (r1, st1)" by simp
    then show ?thesis by (rule load_each_trace [rotated 2]) simp_all
  qed
  show ?thesis
  proof (cases r1)
    case (Inl e)
    with assms m have "st' = st1" by (simp add: load_attack_strategy_def)
    with t1 show ?thesis by simp
  next
    case (Inr mets)
    let ?c = "case arg_context_strategy_ids a of
                None \<Rightarrow> (Inr [], st1)
              | Some ids \<Rightarrow>
                  load_each ContextStrategy_load (context_strategy_load env) ids st1"
    obtain r2 st2 where c: "?c = (r2, st2)" by (cases ?c)
    have t2: "executed (trace st2) = executed (trace st1)
              \<and> constructed (trace st2) = constructed (trace st1)"
    proof (cases "arg_context_strategy_ids a")
      case None
      with c show ?thesis by simp
    next
      case (Some ids)
      with c have "load_each ContextStrategy_load (context_strategy_load env) ids st1
                   = (r2, st2)" by simp
      then show ?thesis by (rule load_each_trace [rotated 2]) simp_all
    qed
    show ?thesis
    proof (cases r2)
      case (Inl e)
      with assms m c \<open>r1 = Inr mets\<close> have "st' = st2"
        by (simp add: load_attack_strategy_def)
      with t1 t2 show ?thesis by simp
    next
      case (Inr css)
      define args where "args =
        \<lparr>name = case_option [] id (arg_attack_module_id a),
         num_of_prompts = 0,
         connector_instances = conns,
         datasets = case_option [] id (arg_dataset_ids a),
         prompt_templates = case_option [] id (arg_prompt_template_ids a),
         prompt = case_option [] id (arg_prompt a),
         metric_instances = mets,
         context_strategies = css,
         db_instance = db\<rparr>"
      have n: "num_of_prompts args = 0" by (simp add: args_def)
      have l: "call (AttackModule_load args) (attack_module_load env args) st2 = (r, st')"
        using assms m c \<open>r1 = Inr mets\<close> Inr
        by (simp add: load_attack_strategy_def Let_def args_def)
      from l have "trace st' = trace st2 @ [AttackModule_load args]"
        by (simp add: call_result)
      with t1 t2 n show ?thesis
        by (simp add: executed_append constructed_append)
    qed
  qed
qed

lemma load_attack_strategies_trace:
  assumes "load_attack_strategies env conns db strategies loaded st = (r, st')"
  shows "executed (trace st') = executed (trace st)
         \<and> (\<exists>as. constructed (trace st') = constructed (trace st) @ as
                 \<and> (\<forall>x \<in> set as. num_of_prompts x = 0))"
  using assms
proof (induction strategies arbitrary: loaded st)
  case Nil
  then show ?case by simp
next
  case (Cons a rest)
  obtain r1 st1 where l: "load_attack_strategy env conns db a st = (r1, st1)"
    by (cases "load_attack_strategy env conns db a st")
  from load_attack_strategy_trace [OF l]
  obtain as1 where s1: "executed (trace st1) = executed (trace st)"
      "constructed (trace st1) = constructed (trace st) @ as1"
      "\<forall>x \<in> set as1. num_of_prompts x = 0"
    by blast
  show ?case
  proof (cases r1)
    case (Inl e)
    with Cons.prems l have "st' = st1" by simp
    with s1 show ?thesis by blast
  next
    case (Inr m)
    with Cons.prems l
    have "load_attack_strategies env conns db rest (loaded @ [m]) st1 = (r, st')" by simp
    from Cons.IH [OF this]
    obtain as2 where s2: "executed (trace st') = executed (trace st1)"
      "constructed (trace st') = constructed (trace st1) @ as2"
      "\<forall>x \<in> set as2. num_of_prompts x = 0"
      by blast
    have "constructed (trace st') = constructed (trace st) @ (as1 @ as2)"
      using s1 s2 by simp
    moreover have "\<forall>x \<in> set (as1 @ as2). num_of_prompts x = 0"
      using s1 s2 by auto
    ultimately show ?thesis using s1 s2 by metis
  qed
qed


lemma load_modules_trace:
  assumes "load_modules env ra db sm st = (ms, st')"
  shows "executed (trace st') = executed (trace st)
         \<and> (\<exists>as. constructed (trace st') = constructed (trace st) @ as
                 \<and> (\<forall>x \<in> set as. num_of_prompts x = 0))"
proof -
  let ?st = "print_line msg_part1 st"
  have p: "executed (trace ?st) = executed (trace st)"
          "constructed (trace ?st) = constructed (trace st)"
    by (simp_all add: print_line_fields executed_append constructed_append)
  obtain r1 st1 where c: "load_each Connector_create (connector_create env) (endpoints sm) ?st
                          = (r1, st1)"
    by (cases "load_each Connector_create (connector_create env) (endpoints sm) ?st")
  have "executed (trace st1) = executed (trace ?st)
        \<and> constructed (trace st1) = constructed (trace ?st)"
    using c by (rule load_each_trace [rotated 2]) simp_all
  with p have t1: "executed (trace st1) = executed (trace st)"
                  "constructed (trace st1) = constructed (trace st)" by simp_all
  show ?thesis
  proof (cases r1)
    case (Inl e)
    with assms c have "st' = print_line (msg_unable e) st1"
      by (simp add: load_modules_def Let_def)
    with t1 show ?thesis
      by (simp add: print_line_fields executed_append constructed_append)
  next
    case (Inr conns)
    let ?st2 = "st1\<lparr>self_llm_connectors := Some conns\<rparr>"
    show ?thesis
    proof (cases "arg_attack_strategies ra")
      case None
      with assms c Inr have "\<exists>s. st' = print_line s ?st2"
        by (auto simp: load_modules_def Let_def)
      with t1 show ?thesis
        by (auto simp: print_line_fields executed_append constructed_append)
    next
      case (Some strategies)
      obtain r3 ms3 st3
        where l: "load_attack_strategies env conns db strategies [] ?st2 = ((r3, ms3), st3)"
        by (cases "load_attack_strategies env conns db strategies [] ?st2") auto
      from load_attack_strategies_trace [OF l] t1
      obtain as where t3: "executed (trace st3) = executed (trace st)"
        "constructed (trace st3) = constructed (trace st) @ as"
        "\<forall>x \<in> set as. num_of_prompts x = 0"
        by auto
      have "st' = st3 \<or> (\<exists>s. st' = print_line s st3)"
        using assms c Inr Some l by (cases r3) (auto simp: load_modules_def Let_def)
      with t3 show ?thesis
        by (auto simp: print_line_fields executed_append constructed_append)
    qed
  qed
qed

lemma run_attack_modules_trace:
  assumes "run_attack_modules env ms rs st = (r, st')"
  shows "constructed (trace st') = constructed (trace st)
         \<and> (\<exists>k \<le> length ms.
               executed (trace st') = executed (trace st) @ take k ms
               \<and> world st' = fold (\<lambda>m w. snd (attack_module_execute env m w)) (take k ms) (world st)
               \<and> (\<forall>x. r = Inr x \<longrightarrow> k = length ms))"
  using assms
proof (induction ms arbitrary: rs st)
  case Nil
  then show ?case by auto
next
  case (Cons m rest)
  let ?st1 = "print_line (msg_starting (attack_module_name env m)) st"
  obtain r2 st2 where c: "call (Execute m) (attack_module_execute env m) ?st1 = (r2, st2)"
    by (cases "call (Execute m) (attack_module_execute env m) ?st1")
  from call_result [OF c]
  have t2: "trace st2 = trace st @ [Print (msg_starting (attack_module_name env m)), Execute m]"
    and w2: "world st2 = snd (attack_module_execute env m (world st))"
    by (simp_all add: print_line_fields)
  have e2: "executed (trace st2) = executed (trace st) @ [m]"
           "constructed (trace st2) = constructed (trace st)"
    by (simp_all add: t2 executed_append constructed_append)
  show ?case
  proof (cases r2)
    case (Inl e)
    with Cons.prems c have "r = Inl e" "st' = st2" by (simp_all add: Let_def)
    with e2 w2 have "executed (trace st') = executed (trace st) @ take 1 (m # rest)
               \<and> world st' = fold (\<lambda>m w. snd (attack_module_execute env m w))
                               (take 1 (m # rest)) (world st)
               \<and> (\<forall>x. r = Inr x \<longrightarrow> 1 = length (m # rest))"
      by simp
    moreover have "(1::nat) \<le> length (m # rest)" by simp
    ultimately show ?thesis using e2 \<open>st' = st2\<close> by blast
  next
    case (Inr resp)
    let ?st3 = "print_line (msg_took (attack_module_name env m)
                  (format_4f env (perf_counter env (world st2) - perf_counter env (world ?st1)))) st2"
    from Cons.prems c Inr
    have "run_attack_modules env rest (rs @ [resp]) ?st3 = (r, st')"
      by (simp add: Let_def)
    from Cons.IH [OF this]
    obtain k where k: "k \<le> length rest"
      "constructed (trace st') = constructed (trace ?st3)"
      "executed (trace st') = executed (trace ?st3) @ take k rest"
      "world st' = fold (\<lambda>m w. snd (attack_module_execute env m w)) (take k rest) (world ?st3)"
      "\<forall>x. r = Inr x \<longrightarrow> k = length rest"
      by blast
    have "executed (trace st') = executed (trace st) @ take (Suc k) (m # rest)"
      using k(3) e2 by (simp add: print_line_fields executed_append)
    moreover have "world st' = fold (\<lambda>m w. snd (attack_module_execute env m w))
                                 (take (Suc k) (m # rest)) (world st)"
      using k(4) w2 by (simp add: print_line_fields)
    moreover have "\<forall>x. r = Inr x \<longrightarrow> Suc k = length (m # rest)"
      using k(5) by simp
    moreover have "Suc k \<le> length (m # rest)" using k(1) by simp
    moreover have "constructed (trace st') = constructed (trace st)"
      using k(2) e2 by (simp add: print_line_fields constructed_append)
    ultimately show ?thesis by blast
  qed
qed

lemma load_attack_strategies_order:
  assumes "load_attack_strategies env conns db strategies loaded st = ((r, ms), st')"
  shows "\<exists>new. ms = loaded @ new \<and> length new \<le> length strategies
           \<and> list_all2 (\<lambda>a m. \<exists>s s'. load_attack_strategy env conns db a s = (Inr m, s'))
                (take (length new) strategies) new
           \<and> (r = None \<longrightarrow> length new = length strategies)"
  using assms
proof (induction strategies arbitrary: loaded st)
  case Nil
  then show ?case by simp
next
  case (Cons a rest)
  obtain r1 st1 where l: "load_attack_strategy env conns db a st = (r1, st1)"
    by (cases "load_attack_strategy env conns db a st")
  show ?case
  proof (cases r1)
    case (Inl e)
    with Cons.prems l show ?thesis by auto
  next
    case (Inr m)
    with Cons.prems l
    have "load_attack_strategies env conns db rest (loaded @ [m]) st1 = ((r, ms), st')"
      by simp
    from Cons.IH [OF this]
    obtain new where n: "ms = (loaded @ [m]) @ new" "length new \<le> length rest"
      "list_all2 (\<lambda>a m. \<exists>s s'. load_attack_strategy env conns db a s = (Inr m, s'))
         (take (length new) rest) new"
      "r = None \<longrightarrow> length new = length rest"
      by blast
    have "list_all2 (\<lambda>a m. \<exists>s s'. load_attack_strategy env conns db a s = (Inr m, s'))
            (take (length (m # new)) (a # rest)) (m # new)"
      using n(3) l Inr by auto
    moreover have "ms = loaded @ (m # new)" using n(1) by simp
    moreover have "length (m # new) \<le> length (a # rest)" using n(2) by simp
    moreover have "r = None \<longrightarrow> length (m # new) = length (a # rest)" using n(4) by simp
    ultimately show ?thesis by blast
  qed
qed

lemma load_modules_order:
  assumes "load_modules env ra db sm st = (ms, st')"
  shows "length ms \<le> length (case_option [] id (arg_attack_strategies ra))
         \<and> (\<exists>conns. list_all2
               (\<lambda>a m. \<exists>s s'. load_attack_strategy env conns db a s = (Inr m, s'))
               (take (length ms) (case_option [] id (arg_attack_strategies ra))) ms)"
proof -
  let ?st = "print_line msg_part1 st"
  obtain r1 st1 where c: "load_each Connector_create (connector_create env) (endpoints sm) ?st
                          = (r1, st1)"
    by (cases "load_each Connector_create (connector_create env) (endpoints sm) ?st")
  show ?thesis
  proof (cases r1)
    case (Inl e)
    with assms c have "ms = []" by (simp add: load_modules_def Let_def)
    then show ?thesis by simp
  next
    case (Inr conns)
    show ?thesis
    proof (cases "arg_attack_strategies ra")
      case None
      with assms c Inr have "ms = []" by (simp add: load_modules_def Let_def)
      then show ?thesis by simp
    next
      case (Some strategies)
      let ?st2 = "st1\<lparr>self_llm_connectors := Some conns\<rparr>"
      obtain r3 ms3 st3
        where l: "load_attack_strategies env conns db strategies [] ?st2 = ((r3, ms3), st3)"
        by (cases "load_attack_strategies env conns db strategies [] ?st2") auto
      have "ms = ms3"
        using assms c Inr Some l by (cases r3) (auto simp: load_modules_def Let_def)
      with load_attack_strategies_order [OF l] Some show ?thesis by auto
    qed
  qed
qed

subsection \<open>Evaluating the concrete registry\<close>

lemmas ev = generate_def assign_attributes_def load_modules_def load_attack_strategy_def
  call_def print_line_def sample_env_def registry_load_def entry_def config_def
  sample_session_def initial_state_def

subsection \<open>Part 1 stops at the first entry that fails to resolve\<close>

lemma load_attack_strategies_append:
  "load_attack_strategies env conns db (pre @ rest) loaded st =
     (case load_attack_strategies env conns db pre loaded st of
        ((None, ms), st1) \<Rightarrow> load_attack_strategies env conns db rest ms st1
      | ((Some e, ms), st1) \<Rightarrow> ((Some e, ms), st1))"
proof (induction pre arbitrary: loaded st)
  case Nil
  then show ?case by simp
next
  case (Cons a pre)
  show ?case
  proof (cases "load_attack_strategy env conns db a st")
    case (Pair r1 st1)
    then show ?thesis using Cons.IH by (cases r1) simp_all
  qed
qed

lemma generate_executed:
  assumes "load_modules env ra db sm (assign_attributes ra st0) = (ms, st1)"
  shows "\<exists>k \<le> length ms.
           executed (trace (snd (generate env ra db sm st0))) = executed (trace st0) @ take k ms
           \<and> (\<forall>d. fst (generate env ra db sm st0) = Inr d \<longrightarrow> k = length ms)"
proof -
  obtain r2 st2 where p: "run_attack_modules env ms [] (print_line msg_part2 st1) = (r2, st2)"
    by (cases "run_attack_modules env ms [] (print_line msg_part2 st1)")
  have g: "snd (generate env ra db sm st0) = st2"
    "\<forall>d. fst (generate env ra db sm st0) = Inr d \<longrightarrow> (\<exists>x. r2 = Inr x)"
    using assms p by (cases r2; auto simp: generate_def)+
  have e1: "executed (trace st1) = executed (trace st0)"
    using load_modules_trace [OF assms] by (simp add: assign_attributes_def)
  from run_attack_modules_trace [OF p]
  obtain k where k: "k \<le> length ms"
    "executed (trace st2) = executed (trace (print_line msg_part2 st1)) @ take k ms"
    "\<forall>x. r2 = Inr x \<longrightarrow> k = length ms"
    by blast
  have "executed (trace (snd (generate env ra db sm st0))) = executed (trace st0) @ take k ms"
    using k(2) e1 g(1) by (simp add: print_line_fields executed_append)
  moreover have "\<forall>d. fst (generate env ra db sm st0) = Inr d \<longrightarrow> k = length ms"
    using g(2) k(3) by blast
  ultimately show ?thesis using k(1) by blast
qed

text \<open>
  C1, as the code has it. The loop over the attack-strategy entries runs inside one
  \<^verbatim>\<open>try\<close> block. When the connectors load, the entries \<open>pre\<close> before an entry \<open>a\<close>
  all resolve and \<open>a\<close> fails to resolve (an unknown metric, context-strategy or
  attack-module id, or any other exception), Part 1 ends there: the loaded modules
  are exactly those of \<open>pre\<close>, one for each entry and in their order, one line naming
  the failure is printed, and the entries \<open>post\<close> after \<open>a\<close> are never looked at,
  whether they would resolve or not. Part 2 then executes the loaded modules from the
  front, in order: all of them when \<^verbatim>\<open>generate\<close> returns, and the first \<open>k\<close> of them
  when one raises in \<^verbatim>\<open>execute()\<close>.
\<close>

theorem load_modules_stops_at_first_failure:
  assumes "load_each Connector_create (connector_create env) (endpoints sm)
             (print_line msg_part1 (assign_attributes ra st0)) = (Inr conns, st1)"
    and "arg_attack_strategies ra = Some (pre @ a # post)"
    and "load_attack_strategies env conns db pre []
           (st1\<lparr>self_llm_connectors := Some conns\<rparr>) = ((None, ms), st2)"
    and "load_attack_strategy env conns db a st2 = (Inl e, st3)"
  shows "load_modules env ra db sm (assign_attributes ra st0)
           = (ms, print_line (msg_unable e) st3)
         \<and> length ms = length pre
         \<and> list_all2 (\<lambda>a m. \<exists>s s'. load_attack_strategy env conns db a s = (Inr m, s')) pre ms
         \<and> (\<exists>k \<le> length ms.
               executed (trace (snd (generate env ra db sm st0)))
                 = executed (trace st0) @ take k ms
               \<and> (\<forall>d. fst (generate env ra db sm st0) = Inr d \<longrightarrow> k = length ms))"
proof -
  have "load_attack_strategies env conns db (pre @ a # post) []
          (st1\<lparr>self_llm_connectors := Some conns\<rparr>) = ((Some e, ms), st3)"
    using assms(3,4) by (simp add: load_attack_strategies_append)
  then have l: "load_modules env ra db sm (assign_attributes ra st0)
                = (ms, print_line (msg_unable e) st3)"
    using assms(1,2) by (simp add: load_modules_def Let_def)
  have o: "length ms = length pre
           \<and> list_all2 (\<lambda>a m. \<exists>s s'. load_attack_strategy env conns db a s = (Inr m, s')) pre ms"
    using load_attack_strategies_order [OF assms(3)] by auto
  from l o generate_executed [OF l] show ?thesis by simp
qed

theorem load_modules_stops_at_first_failure_witness:
  "fst (load_modules sample_env (config [''am1'', ''unknown'', ''am3'']) () sample_session
          (assign_attributes (config [''am1'', ''unknown'', ''am3'']) initial_state)) = [''am1'']
   \<and> executed (trace (snd (generate sample_env (config [''am1'', ''unknown'', ''am3'']) ()
                              sample_session initial_state))) = [''am1'']
   \<and> fst (generate sample_env (config [''am1'', ''unknown'', ''am3'']) () sample_session
            initial_state) = Inr []"
proof -
  let ?ra = "config [''am1'', ''unknown'', ''am3'']"
  let ?st1 = "snd (load_each Connector_create (connector_create sample_env)
                     (endpoints sample_session)
                     (print_line msg_part1 (assign_attributes ?ra initial_state)))"
  let ?st1' = "?st1\<lparr>self_llm_connectors := Some [''endpoint-a'']\<rparr>"
  let ?st2 = "snd (load_attack_strategies sample_env [''endpoint-a''] () [entry ''am1''] [] ?st1')"
  let ?e = "OtherException ''unknown id unknown''"
  let ?st3 = "snd (load_attack_strategy sample_env [''endpoint-a''] () (entry ''unknown'') ?st2)"
  have h1: "load_each Connector_create (connector_create sample_env) (endpoints sample_session)
             (print_line msg_part1 (assign_attributes ?ra initial_state))
            = (Inr [''endpoint-a''], ?st1)"
    by (simp add: ev)
  have h2: "arg_attack_strategies ?ra
            = Some ([entry ''am1''] @ entry ''unknown'' # [entry ''am3''])"
    by (simp add: config_def)
  have h3: "load_attack_strategies sample_env [''endpoint-a''] () [entry ''am1''] [] ?st1'
            = ((None, [''am1'']), ?st2)"
    by (simp add: ev)
  have h4: "load_attack_strategy sample_env [''endpoint-a''] () (entry ''unknown'') ?st2
            = (Inl ?e, ?st3)"
    by (simp add: ev)
  have g: "fst (generate sample_env ?ra () sample_session initial_state) = Inr []"
    by (simp add: ev)
  from load_modules_stops_at_first_failure [OF h1 h2 h3 h4] g
  show ?thesis by (auto simp: initial_state_def)
qed

text \<open>
  C1 as the spec words it (only the failing entry is dropped, so three entries with
  one invalid give two executed entries) fails when the invalid entry is not the
  last: of \<^verbatim>\<open>am1\<close>, \<^verbatim>\<open>unknown\<close>, \<^verbatim>\<open>am3\<close> only \<^verbatim>\<open>am1\<close> is executed; the valid
  entry \<^verbatim>\<open>am3\<close> is dropped with the invalid one.
\<close>

theorem generate_drops_entries_after_failure_counterexample:
  "executed (trace (snd (generate sample_env (config [''am1'', ''unknown'', ''am3'']) ()
                           sample_session initial_state))) = [''am1'']
   \<and> length (executed (trace (snd (generate sample_env (config [''am1'', ''unknown'', ''am3''])
                                      () sample_session initial_state)))) \<noteq> 2"
  by (simp add: ev)

subsection \<open>Part 2 and the returned value\<close>

text \<open>
  C2, evaluated on the code. The claim is that an exception raised by one module's
  \<^verbatim>\<open>execute()\<close> is caught and recorded and that the remaining modules still run.
  On the configuration \<^verbatim>\<open>am1\<close>, \<^verbatim>\<open>faulty\<close>, \<^verbatim>\<open>am3\<close>, where all three modules load
  and \<^verbatim>\<open>faulty\<close> raises in \<^verbatim>\<open>execute()\<close>, the exception leaves \<^verbatim>\<open>generate\<close>
  uncaught and \<^verbatim>\<open>am3\<close> is never executed.
\<close>

theorem generate_execute_failure_aborts:
  "fst (generate sample_env (config [''am1'', ''faulty'', ''am3'']) () sample_session
          initial_state) = Inl (RuntimeError ''execute failed'')
   \<and> executed (trace (snd (generate sample_env (config [''am1'', ''faulty'', ''am3'']) ()
                              sample_session initial_state))) = [''am1'', ''faulty'']"
  by (simp add: ev)

text \<open>
  C4, evaluated on the code. The claim is that \<^verbatim>\<open>generate\<close> returns a report with,
  for each module, its identifier, its duration and its records or failure. The
  value returned is the empty dictionary: for a run in which both modules produce a
  response (Part 2 has collected the two responses in
  \<^verbatim>\<open>responses_from_attack_module\<close>), and equally for a run in which an entry failed
  to resolve.
\<close>

theorem generate_returns_empty_dict:
  "fst (generate sample_env (config [''am1'', ''am2'']) () sample_session initial_state)
     = Inr []
   \<and> fst (run_attack_modules sample_env [''am1'', ''am2''] [] initial_state)
     = Inr [[''response of am1''], [''response of am2'']]
   \<and> fst (generate sample_env (config [''am1'', ''unknown'', ''am3'']) () sample_session
            initial_state) = Inr []"
  by (simp add: ev)

text \<open>
  C5. Whatever the configuration and the collaborators, the modules that
  \<^verbatim>\<open>generate\<close> executes are the modules \<open>ms\<close> loaded by Part 1, taken from the front:
  the \<open>i\<close>-th module of \<open>ms\<close> was loaded from the \<open>i\<close>-th attack-strategy entry of the
  configuration, the \<^verbatim>\<open>execute()\<close> calls in the trace are the first \<open>k\<close> modules of
  \<open>ms\<close> in that order, each once, and the world after the run is the world after
  Part 1 with these calls applied one after the other, each call starting from the
  world its predecessor left when it returned. When \<^verbatim>\<open>generate\<close> returns
  normally, \<open>k\<close> is the number of loaded modules.
\<close>

theorem generate_sequential_in_configuration_order:
  assumes "generate env ra db sm st0 = (r, st')"
  shows "\<exists>ms st1 k.
           load_modules env ra db sm (assign_attributes ra st0) = (ms, st1)
           \<and> (\<exists>conns. list_all2
                 (\<lambda>a m. \<exists>s s'. load_attack_strategy env conns db a s = (Inr m, s'))
                 (take (length ms) (case_option [] id (arg_attack_strategies ra))) ms)
           \<and> k \<le> length ms
           \<and> executed (trace st') = executed (trace st0) @ take k ms
           \<and> world st' = fold (\<lambda>m w. snd (attack_module_execute env m w)) (take k ms) (world st1)
           \<and> (\<forall>d. r = Inr d \<longrightarrow> k = length ms)"
proof -
  obtain ms st1 where l: "load_modules env ra db sm (assign_attributes ra st0) = (ms, st1)"
    by (cases "load_modules env ra db sm (assign_attributes ra st0)")
  obtain r2 st2 where p: "run_attack_modules env ms [] (print_line msg_part2 st1) = (r2, st2)"
    by (cases "run_attack_modules env ms [] (print_line msg_part2 st1)")
  have st': "st' = st2" and r: "\<forall>d. r = Inr d \<longrightarrow> (\<exists>x. r2 = Inr x)"
    using assms l p by (cases r2; auto simp: generate_def)+
  have e1: "executed (trace st1) = executed (trace st0)"
    using load_modules_trace [OF l] by (simp add: assign_attributes_def)
  from run_attack_modules_trace [OF p]
  obtain k where k: "k \<le> length ms"
    "executed (trace st2) = executed (trace (print_line msg_part2 st1)) @ take k ms"
    "world st2 = fold (\<lambda>m w. snd (attack_module_execute env m w)) (take k ms)
                   (world (print_line msg_part2 st1))"
    "\<forall>x. r2 = Inr x \<longrightarrow> k = length ms"
    by blast
  have "executed (trace st') = executed (trace st0) @ take k ms"
    using k(2) e1 st' by (simp add: print_line_fields executed_append)
  moreover have "world st' = fold (\<lambda>m w. snd (attack_module_execute env m w)) (take k ms) (world st1)"
    using k(3) st' by (simp add: print_line_fields)
  moreover have "\<forall>d. r = Inr d \<longrightarrow> k = length ms" using r k(4) by blast
  ultimately show ?thesis using l load_modules_order [OF l] k(1) by blast
qed

theorem generate_sequential_in_configuration_order_witness:
  "executed (trace (snd (generate sample_env (config [''am2'', ''am1'', ''am3'']) ()
                           sample_session initial_state))) = [''am2'', ''am1'', ''am3'']
   \<and> world (snd (generate sample_env (config [''am2'', ''am1'', ''am3'']) ()
                           sample_session initial_state)) = 3"
  using generate_sequential_in_configuration_order
          [of sample_env "config [''am2'', ''am1'', ''am3'']" "()" sample_session initial_state
              "fst (generate sample_env (config [''am2'', ''am1'', ''am3'']) () sample_session
                      initial_state)"
              "snd (generate sample_env (config [''am2'', ''am1'', ''am3'']) () sample_session
                      initial_state)"]
  by (simp add: ev)

text \<open>
  C9. Every \<^verbatim>\<open>AttackModuleArguments\<close> value that a run of \<^verbatim>\<open>generate\<close> constructs
  and hands to \<^verbatim>\<open>AttackModule.load\<close> has \<^verbatim>\<open>num_of_prompts\<close> equal to 0, whatever
  \<^verbatim>\<open>runner_args\<close> holds under \<^verbatim>\<open>num_of_prompts\<close> (that value only reaches
  \<^verbatim>\<open>self.num_of_prompts\<close>).
\<close>

theorem generate_num_of_prompts_zero:
  assumes "generate env ra db sm st0 = (r, st')"
  shows "\<exists>as. constructed (trace st') = constructed (trace st0) @ as
              \<and> (\<forall>a \<in> set as. num_of_prompts a = 0)"
proof -
  obtain ms st1 where l: "load_modules env ra db sm (assign_attributes ra st0) = (ms, st1)"
    by (cases "load_modules env ra db sm (assign_attributes ra st0)")
  obtain r2 st2 where p: "run_attack_modules env ms [] (print_line msg_part2 st1) = (r2, st2)"
    by (cases "run_attack_modules env ms [] (print_line msg_part2 st1)")
  have st': "st' = st2"
    using assms l p by (cases r2) (auto simp: generate_def)
  from load_modules_trace [OF l]
  obtain as where a: "constructed (trace st1) = constructed (trace st0) @ as"
    "\<forall>x \<in> set as. num_of_prompts x = 0"
    by (auto simp: assign_attributes_def)
  have "constructed (trace st2) = constructed (trace st1)"
    using run_attack_modules_trace [OF p]
    by (simp add: print_line_fields constructed_append)
  with a st' show ?thesis by auto
qed

theorem generate_num_of_prompts_zero_witness:
  "map num_of_prompts
     (constructed (trace (snd (generate sample_env (config [''am1'', ''am2'']) ()
                                 sample_session initial_state)))) = [0, 0]
   \<and> arg_num_of_prompts (config [''am1'', ''am2'']) = Some 5"
  using generate_num_of_prompts_zero
          [of sample_env "config [''am1'', ''am2'']" "()" sample_session initial_state
              "fst (generate sample_env (config [''am1'', ''am2'']) () sample_session
                      initial_state)"
              "snd (generate sample_env (config [''am1'', ''am2'']) () sample_session
                      initial_state)"]
  by (simp add: ev)

subsection \<open>A failed schema check inside a module\<close>


section \<open>Properties of the session commands\<close>

lemmas cli_ev = run_attack_module_def run_attack_module_runner_args_def manual_red_teaming_def
  session_context_def subscript_def update_chat_display_def reload_session_def dict_update_def
  cli_call_def cli_print_def sample_cli_def sample_active_session_def sample_args_def
  cli_state0_def

lemma run_attack_module_runner_args_ignores:
  "run_attack_module_runner_args session d
     (args\<lparr>args_context_strategy := c, args_num_of_prev_prompts := n\<rparr>)
   = run_attack_module_runner_args session d args"
  by (simp add: run_attack_module_runner_args_def Let_def split: sum.splits prod.splits)

lemma session_context_Inr:
  assumes "session_context session d = Inr (pt, info)"
  shows "\<exists>cs. map_of session ''context_strategy'' = Some cs
           \<and> (truthy cs \<longrightarrow>
                (\<exists>num. map_of session ''cs_num_of_prev_prompts'' = Some num
                   \<and> info = JArray [JObject [(''context_strategy_id'', cs),
                                             (''num_of_prev_prompts'', num)]]))
           \<and> (\<not> truthy cs \<longrightarrow> info = JArray [])"
  using assms
  by (auto simp: session_context_def subscript_def Let_def
           split: option.splits sum.splits if_splits)

lemma red_teaming_runs_append:
  "red_teaming_runs (xs @ ys) = red_teaming_runs xs @ red_teaming_runs ys"
  by (induction xs rule: red_teaming_runs.induct) simp_all

lemma cli_call_result:
  "cli_call ev f st = (r, st') \<Longrightarrow>
     r = fst (f (cli_world st)) \<and> cli_trace st' = cli_trace st @ [ev]
     \<and> active_session st' = active_session st"
  by (auto simp: cli_call_def split: prod.splits)

lemma reload_session_runs:
  "red_teaming_runs (cli_trace (reload_session env runner_id st))
   = red_teaming_runs (cli_trace st)"
proof -
  obtain r st1 where c: "cli_call (Api_load_session runner_id) (api_load_session env runner_id) st
                         = (r, st1)"
    by (cases "cli_call (Api_load_session runner_id) (api_load_session env runner_id) st")
  have t: "red_teaming_runs (cli_trace st1) = red_teaming_runs (cli_trace st)"
    using cli_call_result [OF c] by (simp add: red_teaming_runs_append)
  have "cli_trace (reload_session env runner_id st) = cli_trace st1
        \<or> (\<exists>s. cli_trace (reload_session env runner_id st) = cli_trace st1 @ [Stdout s])"
    using c by (auto simp: reload_session_def cli_print_def
                     split: sum.splits option.splits list.splits)
  with t show ?thesis by (auto simp: red_teaming_runs_append)
qed

lemma update_chat_display_runs:
  "red_teaming_runs (cli_trace (snd (update_chat_display env st)))
   = red_teaming_runs (cli_trace st)"
proof (cases "active_session st = []")
  case True
  then show ?thesis by (simp add: update_chat_display_def red_teaming_runs_append)
next
  case False
  show ?thesis
  proof (cases "subscript (active_session st) ''session_id''")
    case (Inl e)
    with False show ?thesis by (simp add: update_chat_display_def)
  next
    case (Inr sid)
    obtain r1 st1 where c1: "cli_call (Api_get_all_chats_from_session sid)
                               (api_get_all_chats_from_session env sid) st = (r1, st1)"
      by (cases "cli_call (Api_get_all_chats_from_session sid)
                   (api_get_all_chats_from_session env sid) st")
    have t1: "red_teaming_runs (cli_trace st1) = red_teaming_runs (cli_trace st)"
      using cli_call_result [OF c1] by (simp add: red_teaming_runs_append)
    show ?thesis
    proof (cases r1)
      case (Inl e)
      with False Inr c1 t1 show ?thesis by (simp add: update_chat_display_def)
    next
      case r1: (Inr chats)
      let ?st2 = "st1\<lparr>active_session :=
                        AList.update ''list_of_endpoint_chats'' chats (active_session st1)\<rparr>"
      obtain r3 st3 where c3: "cli_call (Console_print_panel sid chats)
                                 (console_print_panel env sid chats) ?st2 = (r3, st3)"
        by (cases "cli_call (Console_print_panel sid chats)
                     (console_print_panel env sid chats) ?st2")
      have "red_teaming_runs (cli_trace st3) = red_teaming_runs (cli_trace st1)"
        using cli_call_result [OF c3] by (simp add: red_teaming_runs_append)
      moreover have "snd (update_chat_display env st) = st3"
        using False Inr c1 r1 c3 by (simp add: update_chat_display_def Let_def)
      ultimately show ?thesis using t1 by simp
    qed
  qed
qed

lemma run_attack_module_runs:
  "red_teaming_runs (cli_trace (run_attack_module env args st))
   = red_teaming_runs (cli_trace st)
     @ (if active_session st = [] then []
        else case run_attack_module_runner_args (active_session st)
                    (DEFAULT_CONTEXT_STRATEGY_PROMPT env) args of
               Inl e \<Rightarrow> []
             | Inr ra \<Rightarrow>
                 (case subscript (active_session st) ''session_id'' of
                    Inl e \<Rightarrow> []
                  | Inr sid \<Rightarrow>
                      (case fst (api_load_runner env sid (cli_world st)) of
                         Inl e \<Rightarrow> []
                       | Inr runner \<Rightarrow> [ra])))"
proof (cases "active_session st = []")
  case True
  then show ?thesis
    by (simp add: run_attack_module_def cli_print_def red_teaming_runs_append)
next
  case ne: False
  show ?thesis
  proof (cases "run_attack_module_runner_args (active_session st)
                  (DEFAULT_CONTEXT_STRATEGY_PROMPT env) args")
    case (Inl e)
    with ne show ?thesis
      by (simp add: run_attack_module_def cli_print_def red_teaming_runs_append)
  next
    case ra: (Inr ra)
    show ?thesis
    proof (cases "subscript (active_session st) ''session_id''")
      case (Inl e)
      with ne ra show ?thesis
        by (simp add: run_attack_module_def cli_print_def red_teaming_runs_append)
    next
      case sid: (Inr sid)
      obtain r1 st1 where c1: "cli_call (Api_load_runner sid) (api_load_runner env sid) st
                               = (r1, st1)"
        by (cases "cli_call (Api_load_runner sid) (api_load_runner env sid) st")
      from cli_call_result [OF c1]
      have f1: "r1 = fst (api_load_runner env sid (cli_world st))"
        and t1: "red_teaming_runs (cli_trace st1) = red_teaming_runs (cli_trace st)"
        by (simp_all add: red_teaming_runs_append)
      show ?thesis
      proof (cases r1)
        case (Inl e)
        have fe: "fst (api_load_runner env sid (cli_world st)) = Inl e"
          using f1 Inl by simp
        have c1': "cli_call (Api_load_runner sid) (api_load_runner env sid) st = (Inl e, st1)"
          using c1 Inl by simp
        show ?thesis using ne ra sid c1' t1 fe
          by (simp add: run_attack_module_def cli_print_def red_teaming_runs_append)
      next
        case runner: (Inr runner)
        have fr: "fst (api_load_runner env sid (cli_world st)) = Inr runner"
          using f1 runner by simp
        have c1': "cli_call (Api_load_runner sid) (api_load_runner env sid) st
                   = (Inr runner, st1)"
          using c1 runner by simp
        obtain r2 st2 where c2: "cli_call (Run_red_teaming ra) (run_red_teaming env runner ra) st1
                                 = (r2, st2)"
          by (cases "cli_call (Run_red_teaming ra) (run_red_teaming env runner ra) st1")
        from cli_call_result [OF c2] t1
        have t2: "red_teaming_runs (cli_trace st2) = red_teaming_runs (cli_trace st) @ [ra]"
          by (simp add: red_teaming_runs_append)
        have goal: "red_teaming_runs (cli_trace (run_attack_module env args st))
                    = red_teaming_runs (cli_trace st2)"
        proof (cases r2)
          case (Inl e)
          with ne ra sid c1' c2 show ?thesis
            by (simp add: run_attack_module_def cli_print_def red_teaming_runs_append)
        next
          case r2: (Inr u)
          obtain r3 st3 where c3: "cli_call Runner_close (runner_close env runner) st2 = (r3, st3)"
            by (cases "cli_call Runner_close (runner_close env runner) st2")
          from cli_call_result [OF c3]
          have t3: "red_teaming_runs (cli_trace st3) = red_teaming_runs (cli_trace st2)"
            by (simp add: red_teaming_runs_append)
          show ?thesis
          proof (cases r3)
            case (Inl e)
            with ne ra sid c1' c2 r2 c3 t3 show ?thesis
              by (simp add: run_attack_module_def cli_print_def red_teaming_runs_append)
          next
            case r3: (Inr u')
            show ?thesis
            proof (cases "subscript (active_session st3) ''session_id''")
              case (Inl e)
              with ne ra sid c1' c2 r2 c3 r3 t3 show ?thesis
                by (simp add: run_attack_module_def cli_print_def red_teaming_runs_append)
            next
              case sid': (Inr sid')
              let ?u = "update_chat_display env (reload_session env sid' st3)"
              have tu: "red_teaming_runs (cli_trace (snd ?u)) = red_teaming_runs (cli_trace st2)"
                using t3 by (simp add: update_chat_display_runs reload_session_runs)
              have "run_attack_module env args st
                    = (case ?u of
                         (Inl e, st') \<Rightarrow>
                           cli_print (''[run_attack_module]: str('' @ exn_str e @ '')'') st'
                       | (Inr _, st') \<Rightarrow> st')"
                using ne ra sid c1' c2 r2 c3 r3 sid'
                by (simp add: run_attack_module_def)
              then show ?thesis using tu
                by (cases ?u; cases "fst ?u")
                   (auto simp: cli_print_def red_teaming_runs_append)
            qed
          qed
        qed
        show ?thesis using goal t2 ne ra sid fr by simp
      qed
    qed
  qed
qed

text \<open>
  C8. In \<^verbatim>\<open>run_attack_module\<close> the command-line values \<^verbatim>\<open>--context_strategy\<close> and
  \<^verbatim>\<open>--num_of_prev_prompts\<close> have no effect: two invocations that differ only in
  them behave the same in every respect, and so hand the same runner arguments to
  \<^verbatim>\<open>run_red_teaming\<close>. Every runner-arguments value that an invocation hands to
  \<^verbatim>\<open>run_red_teaming\<close> (the list \<open>sent\<close>; exactly one when the session has the keys
  read and the runner loads) has one attack strategy whose
  \<^verbatim>\<open>context_strategy_info\<close> comes from the active session of that invocation alone:
  if the session's \<^verbatim>\<open>context_strategy\<close> is set (truthy), it holds that value as
  \<^verbatim>\<open>context_strategy_id\<close> together with the session's \<^verbatim>\<open>cs_num_of_prev_prompts\<close> as
  \<^verbatim>\<open>num_of_prev_prompts\<close>; otherwise it is the empty list.
\<close>

theorem run_attack_module_context_from_session:
  "run_attack_module env
     (args\<lparr>args_context_strategy := c, args_num_of_prev_prompts := n\<rparr>) st
   = run_attack_module env args st
   \<and> (\<exists>sent.
        red_teaming_runs (cli_trace (run_attack_module env args st))
          = red_teaming_runs (cli_trace st) @ sent
        \<and> (\<forall>ra \<in> set sent.
             \<exists>cs pt info.
               map_of (active_session st) ''context_strategy'' = Some cs
               \<and> ra = JObject [(''attack_strategies'', JArray [JObject
                        [(''attack_module_id'', JString (args_attack_module_id args)),
                         (''prompt'', JString (args_prompt args)),
                         (''system_prompt'',
                            JString (case args_system_prompt args of
                                       Some s \<Rightarrow> s | None \<Rightarrow> [])),
                         (''context_strategy_info'', info),
                         (''prompt_template_ids'', pt),
                         (''metric_ids'',
                            (case args_metric args of
                               Some m \<Rightarrow> if m \<noteq> [] then JArray [JString m] else JArray []
                             | None \<Rightarrow> JArray []))]])]
               \<and> (truthy cs \<longrightarrow>
                    (\<exists>num. map_of (active_session st) ''cs_num_of_prev_prompts'' = Some num
                       \<and> info = JArray [JObject [(''context_strategy_id'', cs),
                                                 (''num_of_prev_prompts'', num)]]))
               \<and> (\<not> truthy cs \<longrightarrow> info = JArray []))
        \<and> (\<forall>ra sid runner.
              run_attack_module_runner_args (active_session st)
                (DEFAULT_CONTEXT_STRATEGY_PROMPT env) args = Inr ra
              \<and> map_of (active_session st) ''session_id'' = Some sid
              \<and> fst (api_load_runner env sid (cli_world st)) = Inr runner
              \<longrightarrow> sent = [ra]))"
proof (rule conjI)
  show "run_attack_module env
          (args\<lparr>args_context_strategy := c, args_num_of_prev_prompts := n\<rparr>) st
        = run_attack_module env args st"
    by (simp add: run_attack_module_def run_attack_module_runner_args_ignores)
next
  let ?d = "DEFAULT_CONTEXT_STRATEGY_PROMPT env"
  let ?sent = "if active_session st = [] then []
        else case run_attack_module_runner_args (active_session st) ?d args of
               Inl e \<Rightarrow> []
             | Inr ra \<Rightarrow>
                 (case subscript (active_session st) ''session_id'' of
                    Inl e \<Rightarrow> []
                  | Inr sid \<Rightarrow>
                      (case fst (api_load_runner env sid (cli_world st)) of
                         Inl e \<Rightarrow> []
                       | Inr runner \<Rightarrow> [ra]))"
  let ?shape = "\<lambda>ra. \<exists>cs pt info.
               map_of (active_session st) ''context_strategy'' = Some cs
               \<and> ra = JObject [(''attack_strategies'', JArray [JObject
                        [(''attack_module_id'', JString (args_attack_module_id args)),
                         (''prompt'', JString (args_prompt args)),
                         (''system_prompt'',
                            JString (case args_system_prompt args of
                                       Some s \<Rightarrow> s | None \<Rightarrow> [])),
                         (''context_strategy_info'', info),
                         (''prompt_template_ids'', pt),
                         (''metric_ids'',
                            (case args_metric args of
                               Some m \<Rightarrow> if m \<noteq> [] then JArray [JString m] else JArray []
                             | None \<Rightarrow> JArray []))]])]
               \<and> (truthy cs \<longrightarrow>
                    (\<exists>num. map_of (active_session st) ''cs_num_of_prev_prompts'' = Some num
                       \<and> info = JArray [JObject [(''context_strategy_id'', cs),
                                                 (''num_of_prev_prompts'', num)]]))
               \<and> (\<not> truthy cs \<longrightarrow> info = JArray [])"
  have shape: "?shape ra"
    if r: "run_attack_module_runner_args (active_session st) ?d args = Inr ra" for ra
  proof -
    from r obtain pt info where sc: "session_context (active_session st) ?d = Inr (pt, info)"
      by (auto simp: run_attack_module_runner_args_def Let_def split: sum.splits)
    have sp: "(case args_system_prompt args of Some s \<Rightarrow> if s \<noteq> [] then s else [] | None \<Rightarrow> [])
              = (case args_system_prompt args of Some s \<Rightarrow> s | None \<Rightarrow> [])"
      by (simp split: option.splits)
    have "ra = JObject [(''attack_strategies'', JArray [JObject
                        [(''attack_module_id'', JString (args_attack_module_id args)),
                         (''prompt'', JString (args_prompt args)),
                         (''system_prompt'',
                            JString (case args_system_prompt args of
                                       Some s \<Rightarrow> s | None \<Rightarrow> [])),
                         (''context_strategy_info'', info),
                         (''prompt_template_ids'', pt),
                         (''metric_ids'',
                            (case args_metric args of
                               Some m \<Rightarrow> if m \<noteq> [] then JArray [JString m] else JArray []
                             | None \<Rightarrow> JArray []))]])]"
      using r sc sp by (simp add: run_attack_module_runner_args_def Let_def)
    with session_context_Inr [OF sc] show ?thesis by blast
  qed
  have a: "red_teaming_runs (cli_trace (run_attack_module env args st))
           = red_teaming_runs (cli_trace st) @ ?sent"
    by (rule run_attack_module_runs)
  have b: "\<forall>ra \<in> set ?sent. ?shape ra"
  proof
    fix ra assume "ra \<in> set ?sent"
    then have "run_attack_module_runner_args (active_session st) ?d args = Inr ra"
      by (auto split: if_splits sum.splits)
    then show "?shape ra" by (rule shape)
  qed
  have c: "\<forall>ra sid runner.
              run_attack_module_runner_args (active_session st) ?d args = Inr ra
              \<and> map_of (active_session st) ''session_id'' = Some sid
              \<and> fst (api_load_runner env sid (cli_world st)) = Inr runner
              \<longrightarrow> ?sent = [ra]"
    by (auto simp: subscript_def)
  from a b c show "\<exists>sent.
        red_teaming_runs (cli_trace (run_attack_module env args st))
          = red_teaming_runs (cli_trace st) @ sent
        \<and> (\<forall>ra \<in> set sent. ?shape ra)
        \<and> (\<forall>ra sid runner.
              run_attack_module_runner_args (active_session st) ?d args = Inr ra
              \<and> map_of (active_session st) ''session_id'' = Some sid
              \<and> fst (api_load_runner env sid (cli_world st)) = Inr runner
              \<longrightarrow> sent = [ra])"
    by blast
qed

theorem run_attack_module_context_from_session_witness:
  "red_teaming_runs (cli_trace (run_attack_module sample_cli
     (sample_args\<lparr>args_context_strategy := Some ''other_strategy'',
                  args_num_of_prev_prompts := Some ''9''\<rparr>)
     (cli_state0 sample_active_session)))
   = [JObject [(''attack_strategies'', JArray [JObject
              [(''attack_module_id'', JString ''sample_attack_module''),
               (''prompt'', JString ''this is my prompt''),
               (''system_prompt'', JString ''test system prompt''),
               (''context_strategy_info'',
                  JArray [JObject [(''context_strategy_id'', JString ''add_previous_prompt''),
                                   (''num_of_prev_prompts'', JNumber 3)]]),
               (''prompt_template_ids'', JArray [JString ''mmlu'']),
               (''metric_ids'', JArray [JString ''exactstrmatch''])]])]]
   \<and> map_of sample_active_session ''context_strategy'' = Some (JString ''add_previous_prompt'')
   \<and> map_of sample_active_session ''cs_num_of_prev_prompts'' = Some (JNumber 3)"
proof -
  have r: "run_attack_module_runner_args (active_session (cli_state0 sample_active_session))
             (DEFAULT_CONTEXT_STRATEGY_PROMPT sample_cli) sample_args
           = Inr (JObject [(''attack_strategies'', JArray [JObject
              [(''attack_module_id'', JString ''sample_attack_module''),
               (''prompt'', JString ''this is my prompt''),
               (''system_prompt'', JString ''test system prompt''),
               (''context_strategy_info'',
                  JArray [JObject [(''context_strategy_id'', JString ''add_previous_prompt''),
                                   (''num_of_prev_prompts'', JNumber 3)]]),
               (''prompt_template_ids'', JArray [JString ''mmlu'']),
               (''metric_ids'', JArray [JString ''exactstrmatch''])]])])"
    by (simp add: run_attack_module_runner_args_def session_context_def subscript_def
          sample_active_session_def sample_args_def sample_cli_def cli_state0_def Let_def)
  have s: "map_of (active_session (cli_state0 sample_active_session)) ''session_id''
           = Some (JString ''my-runner'')"
    by (simp add: sample_active_session_def cli_state0_def)
  have l: "fst (api_load_runner sample_cli (JString ''my-runner'')
                  (cli_world (cli_state0 sample_active_session))) = Inr ''runner''"
    by (simp add: sample_cli_def)
  have t: "cli_trace (cli_state0 sample_active_session) = []"
    by (simp add: cli_state0_def)
  from run_attack_module_context_from_session
         [where env = sample_cli and args = sample_args and c = "Some ''other_strategy''"
            and n = "Some ''9''" and st = "cli_state0 sample_active_session"]
       r s l t
  show ?thesis by (auto simp: sample_active_session_def)
qed

text \<open>
  C10. With no active session (the dictionary \<^verbatim>\<open>active_session\<close> is empty),
  \<^verbatim>\<open>manual_red_teaming\<close> and \<^verbatim>\<open>run_attack_module\<close> print the message and return.
  The state afterwards is the state before with that one line added to the trace: no
  call to \<^verbatim>\<open>api_load_runner\<close>, \<^verbatim>\<open>run_red_teaming\<close> or any other collaborator is
  made, the world is untouched and \<^verbatim>\<open>active_session\<close> is unchanged.
\<close>

theorem no_active_session_returns_immediately:
  assumes "active_session st = []"
  shows "manual_red_teaming env user_prompt st
           = (Inr (), st\<lparr>cli_trace := cli_trace st @ [Stdout msg_no_active_session]\<rparr>)
         \<and> run_attack_module env args st
           = st\<lparr>cli_trace := cli_trace st @ [Stdout msg_no_active_session]\<rparr>"
  using assms by (simp add: manual_red_teaming_def run_attack_module_def cli_print_def)

theorem no_active_session_returns_immediately_witness:
  "active_session (cli_state0 []) = []
   \<and> manual_red_teaming sample_cli ''hello'' (cli_state0 [])
       = (Inr (), \<lparr>cli_world = 0, active_session = [],
                   cli_trace = [Stdout msg_no_active_session]\<rparr>)
   \<and> run_attack_module sample_cli sample_args (cli_state0 [])
       = \<lparr>cli_world = 0, active_session = [], cli_trace = [Stdout msg_no_active_session]\<rparr>
   \<and> cli_world (run_attack_module sample_cli sample_args (cli_state0 sample_active_session)) = 3"
proof -
  have h: "active_session (cli_state0 [] :: nat cli_state) = []"
    by (simp add: cli_state0_def)
  have w: "cli_world (run_attack_module sample_cli sample_args
                        (cli_state0 sample_active_session)) = 3"
    by (simp add: cli_ev)
  from no_active_session_returns_immediately [OF h, of sample_cli "''hello''" sample_args] h w
  show ?thesis by (simp add: cli_state0_def)
qed

end
